theory Spec2Isabelle
  imports Complex_Main "HOL-Library.List_Lexorder" "HOL-Library.Char_ord"
begin

section \<open>Text\<close>

text \<open>
  A Python \<open>str\<close> is modelled as a \<open>string\<close>; a \<open>char\<close> stands for the code point of
  the same number, so the model covers the texts whose code points are below 256 (ASCII
  included) and treats them as Python does. \<open>is_space\<close> is \<open>str.isspace\<close> on that range
  (also what \<open>str.strip()\<close> removes and what \<open>\\s\<close> matches), \<open>lower_char\<close> is
  \<open>str.lower\<close> on it.
\<close>

definition is_space :: "char \<Rightarrow> bool" where
  "is_space c = (let n = (of_char c :: nat) in
     (9 \<le> n \<and> n \<le> 13) \<or> (28 \<le> n \<and> n \<le> 32) \<or> n = 133 \<or> n = 160)"

definition lstrip :: "string \<Rightarrow> string" where
  "lstrip s = dropWhile is_space s"

definition rstrip :: "string \<Rightarrow> string" where
  "rstrip s = rev (dropWhile is_space (rev s))"

definition strip :: "string \<Rightarrow> string" where
  "strip s = rstrip (lstrip s)"

definition lower_char :: "char \<Rightarrow> char" where
  "lower_char c = (let n = (of_char c :: nat) in
     if (65 \<le> n \<and> n \<le> 90) \<or> (192 \<le> n \<and> n \<le> 222 \<and> n \<noteq> 215)
     then char_of (n + 32) else c)"

definition lower :: "string \<Rightarrow> string" where
  "lower s = map lower_char s"

text \<open>\<open>sub in s\<close> and \<open>s.startswith(p)\<close>.\<close>

definition startswith :: "string \<Rightarrow> string \<Rightarrow> bool" where
  "startswith s p = (take (length p) s = p)"

fun contains :: "string \<Rightarrow> string \<Rightarrow> bool" where
  "contains [] sub = (sub = [])"
| "contains (c # cs) sub = (startswith (c # cs) sub \<or> contains cs sub)"

section \<open>Settings\<close>

text \<open>
  The fields of \<open>config.settings\<close> that the two services read. The module itself is
  not part of the sources, so its values are parameters. An unset command is the empty
  string (the code reads it through \<open>or "claude"\<close>).
\<close>

record settings =
  claude_cli_command :: string
  claude_cli_reuse_session :: bool
  claude_cli_session_idle_sec :: int
  claude_cli_session_max_turns :: int
  claude_cli_timeout_sec :: int
  codex_cli_command :: string
  codex_cli_timeout_sec :: int

section \<open>The session slot (claude\_cli\_service)\<close>

text \<open>
  \<open>_SESSION_STATE\<close>: the one global slot. The monotonic clock's readings are reals; each
  operation takes the reading it makes as an argument, and \<open>_lease_session_id\<close> takes
  the value that \<open>uuid.uuid4()\<close> draws.
\<close>

record session_state =
  sid :: string
  turns :: int
  last_used :: real

definition SESSION_STATE_init :: session_state where
  "SESSION_STATE_init = \<lparr>sid = [], turns = 0, last_used = 0\<rparr>"

definition lease_session_id ::
  "settings \<Rightarrow> real \<Rightarrow> string \<Rightarrow> session_state \<Rightarrow> (string \<times> bool) \<times> session_state" where
  "lease_session_id cfg now uuid4 st =
     (let idle_limit = max 0 (claude_cli_session_idle_sec cfg);
          turn_limit = max 0 (claude_cli_session_max_turns cfg);
          current_id = sid st;
          current_turns = turns st;
          lu = last_used st;
          idle_expired = (current_id \<noteq> [] \<and> idle_limit > 0 \<and> lu > 0
                           \<and> now - lu \<ge> of_int idle_limit);
          turn_expired = (current_id \<noteq> [] \<and> turn_limit > 0 \<and> current_turns \<ge> turn_limit)
      in if current_id = [] \<or> idle_expired \<or> turn_expired
         then ((uuid4, True), \<lparr>sid = uuid4, turns = 0, last_used = now\<rparr>)
         else ((current_id, False), st))"

definition touch_session :: "real \<Rightarrow> string \<Rightarrow> bool \<Rightarrow> session_state \<Rightarrow> session_state" where
  "touch_session now session_id success st =
     (if session_id = [] then st
      else if sid st \<noteq> session_id then st
      else (let st1 = st\<lparr>last_used := now\<rparr>
            in if success then st1\<lparr>turns := turns st1 + 1\<rparr> else st1))"

definition reset_session :: "string \<Rightarrow> session_state \<Rightarrow> session_state" where
  "reset_session session_id st =
     (if session_id = [] then st
      else if sid st \<noteq> session_id then st
      else \<lparr>sid = [], turns = 0, last_used = 0\<rparr>)"

definition maybe_reset_session_from_error :: "string \<Rightarrow> string \<Rightarrow> session_state \<Rightarrow> session_state" where
  "maybe_reset_session_from_error session_id error_text st =
     (let lowered = lower error_text
      in if lowered = [] then st
         else if contains lowered ''session''
                 \<and> (contains lowered ''not found'' \<or> contains lowered ''invalid'')
         then reset_session session_id st
         else st)"


text \<open>The settings of the examples: reuse on, idle limit 600 s, no turn limit.\<close>

definition cfg_idle_600 :: settings where
  "cfg_idle_600 = \<lparr>claude_cli_command = ''claude'', claude_cli_reuse_session = True,
     claude_cli_session_idle_sec = 600, claude_cli_session_max_turns = 0,
     claude_cli_timeout_sec = 600, codex_cli_command = ''codex'',
     codex_cli_timeout_sec = 600\<rparr>"

section \<open>Commands\<close>

text \<open>
  \<open>str.split(sep)\<close>, and \<open>Path(p).name\<close> for a POSIX path: the last component that is
  neither empty nor \<open>.\<close>, the empty string when there is none.
\<close>

fun split_on :: "char \<Rightarrow> string \<Rightarrow> string list" where
  "split_on sep [] = [[]]"
| "split_on sep (c # cs) =
     (if c = sep then [] # split_on sep cs
      else (case split_on sep cs of [] \<Rightarrow> [[c]] | p # ps \<Rightarrow> (c # p) # ps))"

definition path_name :: "string \<Rightarrow> string" where
  "path_name p =
     (case filter (\<lambda>part. part \<noteq> [] \<and> part \<noteq> ''.'') (split_on CHR ''/'' p) of
        [] \<Rightarrow> []
      | parts \<Rightarrow> last parts)"

text \<open>
  What the runners take from outside. \<open>shlex_split\<close> is \<open>shlex.split\<close> (\<open>None\<close> when it
  raises \<open>ValueError\<close> on an unclosed quote); \<open>proc\<close> is the operating system: what the
  process started with an argv, a standard input and a timeout does; \<open>uuid4\<close>,
  \<open>lease_time\<close> and \<open>touch_time\<close> are the values drawn by \<open>uuid.uuid4()\<close> and read from
  \<open>time.monotonic()\<close> in \<open>_lease_session_id\<close> and \<open>_touch_session\<close>; \<open>schedule\<close> is the
  order in which the two reader tasks of a streaming run reach the queue.
\<close>

datatype proc_behaviour =
    NotFound
  | Hangs string string
  | Exits int string string

record env =
  shlex_split :: "string \<Rightarrow> string list option"
  proc :: "string list \<Rightarrow> string \<Rightarrow> int \<Rightarrow> proc_behaviour"
  uuid4 :: string
  lease_time :: real
  touch_time :: real
  schedule :: "bool list"

definition claude_subcommands :: "string list" where
  "claude_subcommands = [''agents'', ''auth'', ''doctor'', ''install'', ''mcp'', ''plugin'',
     ''setup-token'', ''update'', ''upgrade'']"

definition claude_resolve_command :: "env \<Rightarrow> settings \<Rightarrow> string list option" where
  "claude_resolve_command e cfg =
     (let command_text =
            strip (if claude_cli_command cfg = [] then ''claude'' else claude_cli_command cfg)
      in case (if command_text \<noteq> [] then shlex_split e command_text else Some [''claude'']) of
           None \<Rightarrow> None
         | Some command \<Rightarrow>
             if command = [] then Some [''claude'']
             else
               let binary_name = lower (path_name (hd command));
                   has_print_flag =
                     list_ex (\<lambda>token. token = ''-p'' \<or> token = ''--print'') (tl command);
                   has_subcommand =
                     (length command > 1 \<and> command ! 1 \<in> set claude_subcommands)
               in if binary_name = ''claude'' \<and> \<not> has_print_flag \<and> \<not> has_subcommand
                  then Some (hd command # ''-p'' # tl command)
                  else Some command)"

definition codex_subcommands :: "string list" where
  "codex_subcommands = [''exec'', ''review'', ''login'', ''logout'', ''mcp'', ''mcp-server'',
     ''app-server'', ''app'', ''completion'', ''sandbox'', ''debug'', ''apply'', ''a'',
     ''resume'', ''fork'', ''cloud'', ''features'', ''help'']"

definition codex_resolve_command :: "env \<Rightarrow> settings \<Rightarrow> string list option" where
  "codex_resolve_command e cfg =
     (let command_text =
            strip (if codex_cli_command cfg = [] then ''codex'' else codex_cli_command cfg)
      in case (if command_text \<noteq> [] then shlex_split e command_text else Some [''codex'']) of
           None \<Rightarrow> None
         | Some command \<Rightarrow>
             if command = [] then Some [''codex'']
             else
               let binary_name = lower (path_name (hd command));
                   has_subcommand =
                     (length command > 1 \<and> command ! 1 \<in> set codex_subcommands)
               in if binary_name = ''codex'' \<and> \<not> has_subcommand
                  then Some (hd command # ''exec'' # tl command)
                  else Some command)"

definition command_has_session_flags :: "string list \<Rightarrow> bool" where
  "command_has_session_flags command =
     list_ex (\<lambda>token.
        token \<in> set [''--session-id'', ''-r'', ''--resume'', ''-c'', ''--continue'',
                      ''--no-session-persistence'']
        \<or> startswith token ''--session-id='' \<or> startswith token ''--resume='')
       (tl command)"

definition session_reuse_supported :: "settings \<Rightarrow> string list \<Rightarrow> bool" where
  "session_reuse_supported cfg command =
     (if \<not> claude_cli_reuse_session cfg then False
      else if command = [] then False
      else if lower (path_name (hd command)) \<noteq> ''claude'' then False
      else if command_has_session_flags command then False
      else True)"

definition build_command_with_session ::
  "env \<Rightarrow> settings \<Rightarrow> string list \<Rightarrow> session_state \<Rightarrow> (string list \<times> string) \<times> session_state" where
  "build_command_with_session e cfg base_command st =
     (let command = base_command
      in if \<not> session_reuse_supported cfg command then ((command, []), st)
         else (case lease_session_id cfg (lease_time e) (uuid4 e) st of
                 ((session_id, created), st') \<Rightarrow>
                   ((command @ [''--session-id'', session_id], session_id), st')))"

text \<open>
  The header line of the standard input is a fixed literal outside the range of \<open>char\<close>;
  it is passed through to the process and nothing reads it back, so it stands here as
  its UTF-8 bytes.
\<close>

definition transcript_header :: string where
  "transcript_header = [CHR 0x5B, CHR 0xEC, CHR 0xA0, CHR 0x84, CHR 0xEC, CHR 0x82, CHR 0xAC,
     CHR 0x20, CHR 0xED, CHR 0x85, CHR 0x8D, CHR 0xEC, CHR 0x8A, CHR 0xA4, CHR 0xED, CHR 0x8A,
     CHR 0xB8, CHR 0x5D]"

definition build_full_input :: "string \<Rightarrow> string \<Rightarrow> string" where
  "build_full_input transcript prompt =
     strip prompt @ [CHR 0x0A, CHR 0x0A] @ transcript_header @ [CHR 0x0A]
     @ strip transcript @ [CHR 0x0A]"

section \<open>The process runners\<close>

text \<open>
  The errors of the runners, one constructor per \<open>raise\<close>: the two \<open>ValueError\<close>s (empty
  source text; \<open>shlex.split\<close> refusing the configured command) and the
  \<open>RuntimeError\<close>s (executable not found, timeout with its bound, non-zero exit with the
  return code and the stripped stderr, empty output on a zero exit).
\<close>

datatype run_error =
    EmptySourceText
  | CommandSyntax
  | ExecutableNotFound
  | TimeoutExceeded int
  | NonZeroExit int string
  | EmptyOutput

text \<open>
  The effects a caller can observe besides the result: a process started (argv and
  standard input), a start that failed because the executable was not found, the end of
  the process started (exited, or killed and awaited), and the two operations on
  \<open>_SESSION_EXEC_LOCK\<close>. Log lines are left out: they change nothing.
\<close>

datatype effect =
    Spawn "string list" string
  | SpawnFailed "string list" string
  | Reaped
  | LockAcquire
  | LockRelease

text \<open>
  \<open>subprocess.run(..., text=True, capture_output=True, timeout=..., check=False)\<close>: the
  captured streams are decoded with universal newlines, so \<open>\\r\\n\<close> and \<open>\\r\<close> arrive
  as \<open>\\n\<close>; on a timeout the child is killed and awaited before \<open>TimeoutExpired\<close> is
  raised.
\<close>

fun universal_newlines :: "string \<Rightarrow> string" where
  "universal_newlines [] = []"
| "universal_newlines [c] = [if c = CHR 0x0D then CHR 0x0A else c]"
| "universal_newlines (c # d # ds) =
     (if c = CHR 0x0D \<and> d = CHR 0x0A then CHR 0x0A # universal_newlines ds
      else (if c = CHR 0x0D then CHR 0x0A else c) # universal_newlines (d # ds))"

record completed_process =
  returncode :: int
  stdout :: string
  stderr :: string

datatype run_outcome =
    FileNotFoundError
  | TimeoutExpired
  | Completed completed_process

definition subprocess_run ::
  "string list \<Rightarrow> string \<Rightarrow> proc_behaviour \<Rightarrow> run_outcome \<times> effect list" where
  "subprocess_run command input b =
     (case b of
        NotFound \<Rightarrow> (FileNotFoundError, [SpawnFailed command input])
      | Hangs out err \<Rightarrow> (TimeoutExpired, [Spawn command input, Reaped])
      | Exits rc out err \<Rightarrow>
          (Completed \<lparr>returncode = rc, stdout = universal_newlines out,
                      stderr = universal_newlines err\<rparr>,
           [Spawn command input, Reaped]))"

definition run_codex ::
  "env \<Rightarrow> settings \<Rightarrow> string \<Rightarrow> string \<Rightarrow> int \<Rightarrow> (run_error + string) \<times> effect list" where
  "run_codex e cfg transcript prompt timeout_sec =
     (let text = strip transcript;
          instruction = strip prompt
      in if text = [] then (Inl EmptySourceText, [])
         else (case codex_resolve_command e cfg of
                 None \<Rightarrow> (Inl CommandSyntax, [])
               | Some command \<Rightarrow>
                   let full_input = build_full_input text instruction;
                       timeout_value = max 1 (if timeout_sec = 0 then 1 else timeout_sec)
                   in (case subprocess_run command full_input
                             (proc e command full_input timeout_value) of
                         (FileNotFoundError, fx) \<Rightarrow>
                           (Inl ExecutableNotFound, fx)
                       | (TimeoutExpired, fx) \<Rightarrow>
                           (Inl (TimeoutExceeded timeout_value), fx)
                       | (Completed p, fx) \<Rightarrow>
                           if returncode p \<noteq> 0
                           then (Inl (NonZeroExit (returncode p) (strip (stderr p))),
                                 fx)
                           else
                             let output = strip (stdout p)
                             in if output = []
                                then (Inl EmptyOutput, fx)
                                else (Inr output, fx))))"

text \<open>
  \<open>run_claude\<close> also threads the session slot: the result, the slot afterwards, the
  effects.
\<close>

definition run_claude ::
  "env \<Rightarrow> settings \<Rightarrow> string \<Rightarrow> string \<Rightarrow> int \<Rightarrow> session_state
   \<Rightarrow> (run_error + string) \<times> session_state \<times> effect list" where
  "run_claude e cfg transcript prompt timeout_sec st =
     (let text = strip transcript;
          instruction = strip prompt
      in if text = [] then (Inl EmptySourceText, st, [])
         else (case claude_resolve_command e cfg of
                 None \<Rightarrow> (Inl CommandSyntax, st, [])
               | Some base_command \<Rightarrow>
                  (case build_command_with_session e cfg base_command st of
                     ((command, session_id), st1) \<Rightarrow>
                   let full_input = build_full_input text instruction;
                       timeout_value = max 1 (if timeout_sec = 0 then 1 else timeout_sec)
                   in (case subprocess_run command full_input
                             (proc e command full_input timeout_value) of
                         (FileNotFoundError, fx) \<Rightarrow>
                           (Inl ExecutableNotFound,
                            touch_session (touch_time e) session_id False st1,
                            fx)
                       | (TimeoutExpired, fx) \<Rightarrow>
                           (Inl (TimeoutExceeded timeout_value),
                            touch_session (touch_time e) session_id False st1,
                            fx)
                       | (Completed p, fx) \<Rightarrow>
                           if returncode p \<noteq> 0
                           then
                             let stderr_text = strip (stderr p);
                                 st2 = touch_session (touch_time e) session_id False st1;
                                 st3 = maybe_reset_session_from_error session_id stderr_text st2
                             in (Inl (NonZeroExit (returncode p) stderr_text), st3,
                                 fx)
                           else
                             let output = strip (stdout p)
                             in if output = []
                                then (Inl EmptyOutput,
                                      touch_session (touch_time e) session_id False st1,
                                      fx)
                                else (Inr output,
                                      touch_session (touch_time e) session_id True st1,
                                      fx)))))"

section \<open>The streaming runners\<close>

datatype channel = Stdout | Stderr

datatype stream_event =
    Chunk channel string
  | Eof channel
  | Done string

text \<open>
  What successive \<open>readline()\<close> calls return on a stream that carries a text and is then
  closed: each line with its \<open>\\n\<close>, and a last piece without one if the text does not end
  in \<open>\\n\<close>. Every line is taken to fit the reader's buffer limit. While the process is
  still running, only the lines already ended by \<open>\\n\<close> have been returned.
\<close>

fun readlines :: "string \<Rightarrow> string list" where
  "readlines [] = []"
| "readlines (c # cs) =
     (if c = CHR 0x0A then [c] # readlines cs
      else (case readlines cs of [] \<Rightarrow> [[c]] | l # ls \<Rightarrow> (c # l) # ls))"

definition complete_lines :: "string \<Rightarrow> string list" where
  "complete_lines s = filter (\<lambda>l. l \<noteq> [] \<and> last l = CHR 0x0A) (readlines s)"

text \<open>
  \<open>_pump\<close>: one chunk event per line, then the channel's EOF marker; \<open>pump_blocked\<close> is
  the same task still waiting in \<open>readline()\<close> on an open stream. The queue holds the
  events of the two tasks, each task's in its own order, interleaved as the schedule
  says (\<open>True\<close>: the stdout task puts next).
\<close>

fun pump :: "channel \<Rightarrow> string list \<Rightarrow> stream_event list" where
  "pump ch [] = [Eof ch]"
| "pump ch (line # rest) = Chunk ch line # pump ch rest"

definition pump_blocked :: "channel \<Rightarrow> string list \<Rightarrow> stream_event list" where
  "pump_blocked ch lines = map (Chunk ch) lines"

fun merge_queue :: "bool list \<Rightarrow> 'a list \<Rightarrow> 'a list \<Rightarrow> 'a list" where
  "merge_queue sched [] ys = ys"
| "merge_queue sched (x # xs) [] = x # xs"
| "merge_queue [] (x # xs) (y # ys) = x # merge_queue [] xs (y # ys)"
| "merge_queue (b # sched) (x # xs) (y # ys) =
     (if b then x # merge_queue sched xs (y # ys) else y # merge_queue sched (x # xs) ys)"

definition event_queue :: "bool list \<Rightarrow> proc_behaviour \<Rightarrow> stream_event list" where
  "event_queue sched b =
     (case b of
        NotFound \<Rightarrow> []
      | Hangs out err \<Rightarrow>
          merge_queue sched (pump_blocked Stdout (complete_lines out))
                            (pump_blocked Stderr (complete_lines err))
      | Exits rc out err \<Rightarrow>
          merge_queue sched (pump Stdout (readlines out)) (pump Stderr (readlines err)))"

definition exit_status :: "proc_behaviour \<Rightarrow> int option" where
  "exit_status b = (case b of Exits rc out err \<Rightarrow> Some rc | _ \<Rightarrow> None)"

text \<open>
  The consumer loop \<open>while eof_count < 2\<close>: the queue still to come, the EOF count, the
  two chunk lists and the events yielded so far. It returns whether both EOFs were seen;
  a queue that runs dry before that leaves the loop waiting until the timeout. An event
  that is neither an EOF nor a stdout chunk takes the \<open>else\<close> branch, where
  \<open>event.get("text", "")\<close> reads a chunk's text and the empty string otherwise.
\<close>

fun consume ::
  "stream_event list \<Rightarrow> nat \<Rightarrow> string list \<Rightarrow> string list \<Rightarrow> stream_event list
   \<Rightarrow> bool \<times> string list \<times> string list \<times> stream_event list" where
  "consume [] eof_count stdout_chunks stderr_chunks yielded =
     (eof_count \<ge> 2, stdout_chunks, stderr_chunks, yielded)"
| "consume (event # queue) eof_count stdout_chunks stderr_chunks yielded =
     (if eof_count \<ge> 2 then (True, stdout_chunks, stderr_chunks, yielded)
      else (case event of
              Eof ch \<Rightarrow> consume queue (eof_count + 1) stdout_chunks stderr_chunks yielded
            | Chunk Stdout row \<Rightarrow>
                consume queue eof_count (stdout_chunks @ [row]) stderr_chunks
                  (yielded @ [event])
            | Chunk Stderr row \<Rightarrow>
                consume queue eof_count stdout_chunks (stderr_chunks @ [row])
                  (yielded @ [event])
            | Done r \<Rightarrow>
                consume queue eof_count stdout_chunks (stderr_chunks @ [[]])
                  (yielded @ [event])))"

text \<open>
  A streaming run gives the events it yields, in order, and the error it raises after
  them, if any. \<open>timeout_sec\<close> is \<open>None\<close> when the caller passes none. The process is
  created with its three pipes, so the check that one of them is missing has no branch
  here, and the process is taken to accept its standard input.
\<close>

definition stream_codex_cli ::
  "env \<Rightarrow> settings \<Rightarrow> string \<Rightarrow> string \<Rightarrow> int option
   \<Rightarrow> (stream_event list \<times> run_error option) \<times> effect list" where
  "stream_codex_cli e cfg transcript prompt timeout_sec =
     (let text = strip transcript;
          instruction = strip prompt
      in if text = [] then (([], Some EmptySourceText), [])
         else
           let timeout_value =
                 max 1 (case timeout_sec of None \<Rightarrow> codex_cli_timeout_sec cfg | Some t \<Rightarrow> t)
           in (case codex_resolve_command e cfg of
                 None \<Rightarrow> (([], Some CommandSyntax), [])
               | Some command \<Rightarrow>
                   let full_input = build_full_input text instruction;
                       b = proc e command full_input timeout_value
                   in if b = NotFound
                      then (([], Some ExecutableNotFound), [SpawnFailed command full_input])
                      else
                        (case consume (event_queue (schedule e) b) 0 [] [] [] of
                           (finished, stdout_chunks, stderr_chunks, yielded) \<Rightarrow>
                             (case (if finished then exit_status b else None) of
                                None \<Rightarrow>
                                  ((yielded, Some (TimeoutExceeded timeout_value)),
                                   [Spawn command full_input, Reaped])
                              | Some rc \<Rightarrow>
                                  if rc \<noteq> 0
                                  then ((yielded,
                                         Some (NonZeroExit rc (strip (concat stderr_chunks)))),
                                        [Spawn command full_input, Reaped])
                                  else
                                    let output = strip (concat stdout_chunks)
                                    in if output = []
                                       then ((yielded, Some EmptyOutput),
                                             [Spawn command full_input, Reaped])
                                       else ((yielded @ [Done output], None),
                                             [Spawn command full_input, Reaped])))))"

definition stream_claude_cli_locked ::
  "env \<Rightarrow> settings \<Rightarrow> string \<Rightarrow> string \<Rightarrow> int option \<Rightarrow> session_state
   \<Rightarrow> (stream_event list \<times> run_error option) \<times> session_state \<times> effect list" where
  "stream_claude_cli_locked e cfg transcript prompt timeout_sec st =
     (let text = strip transcript;
          instruction = strip prompt
      in if text = [] then (([], Some EmptySourceText), st, [])
         else
           let timeout_value =
                 max 1 (case timeout_sec of None \<Rightarrow> claude_cli_timeout_sec cfg | Some t \<Rightarrow> t)
           in (case claude_resolve_command e cfg of
                 None \<Rightarrow> (([], Some CommandSyntax), st, [])
               | Some base_command \<Rightarrow>
                  (case build_command_with_session e cfg base_command st of
                     ((command, session_id), st1) \<Rightarrow>
                   let full_input = build_full_input text instruction;
                       b = proc e command full_input timeout_value
                   in if b = NotFound
                      then (([], Some ExecutableNotFound),
                            touch_session (touch_time e) session_id False st1,
                            [SpawnFailed command full_input])
                      else
                        (case consume (event_queue (schedule e) b) 0 [] [] [] of
                           (finished, stdout_chunks, stderr_chunks, yielded) \<Rightarrow>
                             (case (if finished then exit_status b else None) of
                                None \<Rightarrow>
                                  ((yielded, Some (TimeoutExceeded timeout_value)),
                                   touch_session (touch_time e) session_id False st1,
                                   [Spawn command full_input, Reaped])
                              | Some rc \<Rightarrow>
                                  if rc \<noteq> 0
                                  then
                                    let stderr_text = strip (concat stderr_chunks);
                                        st2 = touch_session (touch_time e) session_id False st1;
                                        st3 = maybe_reset_session_from_error session_id
                                                stderr_text st2
                                    in ((yielded, Some (NonZeroExit rc stderr_text)), st3,
                                        [Spawn command full_input, Reaped])
                                  else
                                    let output = strip (concat stdout_chunks)
                                    in if output = []
                                       then ((yielded, Some EmptyOutput),
                                             touch_session (touch_time e) session_id False st1,
                                             [Spawn command full_input, Reaped])
                                       else ((yielded @ [Done output], None),
                                             touch_session (touch_time e) session_id True st1,
                                             [Spawn command full_input, Reaped]))))))"

text \<open>The texts of the stdout chunk events of a run, in the order of delivery.\<close>

fun stdout_chunk_texts :: "stream_event list \<Rightarrow> string list" where
  "stdout_chunk_texts [] = []"
| "stdout_chunk_texts (ev # evs) =
     (case ev of
        Chunk Stdout t \<Rightarrow> t # stdout_chunk_texts evs
      | _ \<Rightarrow> stdout_chunk_texts evs)"

text \<open>
  For the proofs about the consumer loop: the EOF markers, and the rows the loop appends
  to \<open>stderr_chunks\<close>.
\<close>

definition is_eof :: "stream_event \<Rightarrow> bool" where
  "is_eof ev = (case ev of Eof ch \<Rightarrow> True | _ \<Rightarrow> False)"

fun stderr_rows :: "stream_event list \<Rightarrow> string list" where
  "stderr_rows [] = []"
| "stderr_rows (ev # evs) =
     (case ev of
        Chunk Stderr t \<Rightarrow> t # stderr_rows evs
      | Done r \<Rightarrow> [] # stderr_rows evs
      | _ \<Rightarrow> stderr_rows evs)"

section \<open>Example environments\<close>

text \<open>
  The tokenizer of the examples: the words between blanks, which is what \<open>shlex.split\<close>
  returns for a command without quotes, backslashes or other white space. The process of
  the examples prints \<open>hi\<close> and a newline and exits with 0, whatever it is given.
\<close>

definition blank_split :: "string \<Rightarrow> string list option" where
  "blank_split s = Some (filter (\<lambda>w. w \<noteq> []) (split_on CHR '' '' s))"

definition env_hi :: env where
  "env_hi = \<lparr>shlex_split = blank_split,
     proc = (\<lambda>command full_input timeout_value. Exits 0 [CHR ''h'', CHR ''i'', CHR 0x0A] []),
     uuid4 = ''u1'', lease_time = 1, touch_time = 2, schedule = []\<rparr>"

text \<open>
  The condition of the specification for an error-triggered reset: the text names a
  session and says that something is not found or invalid, in any letter case.
\<close>

definition mentions_lost_session :: "string \<Rightarrow> bool" where
  "mentions_lost_session error_text =
     (contains (lower error_text) ''session''
      \<and> (contains (lower error_text) ''not found'' \<or> contains (lower error_text) ''invalid''))"

text \<open>A process that exits with code 2 and the message of the scenario on stderr.\<close>

definition env_lost :: env where
  "env_lost = \<lparr>shlex_split = blank_split,
     proc = (\<lambda>command full_input timeout_value. Exits 2 [] ''Error: Session not found\<newline>''),
     uuid4 = ''u1'', lease_time = 1, touch_time = 2, schedule = []\<rparr>"

text \<open>A slot holding a session in use: three turns so far, last used at clock 0.5.\<close>

definition session_old :: session_state where
  "session_old = \<lparr>sid = ''old'', turns = 3, last_used = 1 / 2\<rparr>"

text \<open>
  Settings whose commands give a path to the binary and an option, and the settings
  obtained by writing the resolved commands back.
\<close>

definition cfg_paths :: settings where
  "cfg_paths = cfg_idle_600\<lparr>claude_cli_command := ''/usr/local/bin/Claude --verbose'',
     codex_cli_command := ''codex --json''\<rparr>"

definition cfg_paths_resolved :: settings where
  "cfg_paths_resolved = cfg_idle_600\<lparr>claude_cli_command := ''/usr/local/bin/Claude -p --verbose'',
     codex_cli_command := ''codex exec --json''\<rparr>"

section \<open>The issue writer (routers/ai)\<close>



























text \<open>
  \<open>_save_ai_output\<close>, its local values first: the account (the source's top-level
  segment, if nested), the issue directory, the loop that picks the next number, and the
  two tokens. The file system enters through \<open>glob_md\<close>, which gives for a directory the
  names of its entries matching \<open>*.md\<close>, and leaves as the file written, path and text.
  \<open>issue_folder\<close> is what \<open>get_issue_folder()\<close> returns. The result is \<open>None\<close> when
  \<open>relative_to\<close> raises \<open>ValueError\<close>, which happens after the file is written.
\<close>

record saved =
  saved_path :: string
  name :: string










section \<open>The watch loop (routers/ai)\<close>

text \<open>
  \<open>_AUTO_WATCH_STATE\<close> without the task handle. The two messages the loop writes itself
  are fixed literals outside the range of \<open>char\<close>; like the input header they are only
  passed on, and stand here as their UTF-8 bytes.
\<close>

record watch_state =
  enabled :: bool
  known_files :: "string set"
  vault_path :: string
  processed_count :: int
  last_processed_file :: string
  last_saved_path :: string
  last_processed_at :: string
  last_error :: string
  last_error_at :: string

definition AUTO_WATCH_SETTLE_ATTEMPTS :: nat where
  "AUTO_WATCH_SETTLE_ATTEMPTS = 3"


definition permission_message :: string where
  "permission_message =
    [CHR 0xEA, CHR 0xB2, CHR 0xBD, CHR 0xEB, CHR 0xA1, CHR 0x9C, CHR '' '', CHR 0xEC,
     CHR 0xA0, CHR 0x91, CHR 0xEA, CHR 0xB7, CHR 0xBC, CHR 0xEC, CHR 0x9D, CHR 0xB4,
     CHR '' '', CHR 0xED, CHR 0x97, CHR 0x88, CHR 0xEC, CHR 0x9A, CHR 0xA9, CHR 0xEB,
     CHR 0x90, CHR 0x98, CHR 0xEC, CHR 0xA7, CHR 0x80, CHR '' '', CHR 0xEC, CHR 0x95,
     CHR 0x8A, CHR 0xEC, CHR 0x8A, CHR 0xB5, CHR 0xEB, CHR 0x8B, CHR 0x88, CHR 0xEB,
     CHR 0x8B, CHR 0xA4, CHR ''.'']"

text \<open>
  What the handler of one candidate meets: whether the path resolves inside the vault
  (else \<open>_safe_resolve_in_vault\<close> raises \<open>PermissionError\<close>), whether it is a regular file,
  the size that the \<open>n\<close>-th \<open>stat()\<close> of the stability wait reads (\<open>None\<close>:
  \<open>FileNotFoundError\<close>), whether the file exists after the last attempt, and what
  \<open>summarize_file_to_issue\<close> does with it: the message of the exception it raises, or the
  record of the saved issue.
\<close>

record file_obs =
  inside_vault :: bool
  is_file :: bool
  stat_size :: "nat \<Rightarrow> nat option"
  exists_after :: bool
  summarize :: "string + saved"

text \<open>
  The loop of \<open>_wait_for_stable_file\<close>: attempts left, index of the sample, \<open>last_size\<close>
  and \<open>stable_count\<close>. \<open>Some b\<close> is a \<open>return b\<close> inside the loop, \<open>None\<close> the end of the
  \<open>for\<close>.
\<close>

fun settle_loop :: "(nat \<Rightarrow> nat option) \<Rightarrow> nat \<Rightarrow> nat \<Rightarrow> int \<Rightarrow> nat \<Rightarrow> bool option" where
  "settle_loop stat 0 i last_size stable_count = None"
| "settle_loop stat (Suc k) i last_size stable_count =
     (case stat i of
        None \<Rightarrow> Some False
      | Some current_size \<Rightarrow>
          if int current_size = last_size
          then (if stable_count + 1 \<ge> AUTO_WATCH_SETTLE_ATTEMPTS then Some True
                else settle_loop stat k (i + 1) last_size (stable_count + 1))
          else settle_loop stat k (i + 1) (int current_size) 0)"

definition wait_for_stable_file :: "file_obs \<Rightarrow> bool" where
  "wait_for_stable_file obs =
     (case settle_loop (stat_size obs) (AUTO_WATCH_SETTLE_ATTEMPTS * 3) 0 (- 1) 0 of
        Some b \<Rightarrow> b
      | None \<Rightarrow> exists_after obs)"

text \<open>
  What a tick takes from outside: whether the configured root is a directory, its text,
  the result of \<open>_scan_watch_candidates\<close>, the observations per candidate, the reading of
  \<open>_now_iso()\<close>, and \<open>others\<close>: what other tasks have done to the watch state by the time
  the batch loop takes the lock for its \<open>n\<close>-th check.
\<close>

record tick_env =
  vault_is_dir :: bool
  vault_text :: string
  scan :: "string set"
  files :: "string \<Rightarrow> file_obs"
  now_iso :: string
  others :: "nat \<Rightarrow> watch_state \<Rightarrow> watch_state"


text \<open>
  \<open>_handle_auto_watch_file\<close>: the state afterwards, the paths handed to
  \<open>summarize_file_to_issue\<close> (none or the one), and the message of the exception that leaves
  the handler, if one does.
\<close>

definition handle_auto_watch_file ::
  "tick_env \<Rightarrow> string \<Rightarrow> watch_state \<Rightarrow> watch_state \<times> string list \<times> string option" where
  "handle_auto_watch_file te file_path st =
     (let obs = files te file_path
      in if \<not> inside_vault obs then (st, [], Some permission_message)
         else if \<not> is_file obs then (st, [], None)
         else if \<not> wait_for_stable_file obs then (st, [], None)
         else (case summarize obs of
                 Inl message \<Rightarrow> (st, [file_path], Some message)
               | Inr saved \<Rightarrow>
                   (st\<lparr>processed_count := processed_count st + 1,
                       last_processed_file := file_path,
                       last_saved_path := saved_path saved,
                       last_processed_at := now_iso te,
                       last_error := [],
                       last_error_at := []\<rparr>,
                    [file_path], None)))"




text \<open>
  Examples: a file that grows at every sample and is still there at the end; the state
  and the tick of the scenario, with \<open>a.md\<close> known and \<open>a.md\<close>, \<open>b.md\<close> found.
\<close>

definition obs_growing :: file_obs where
  "obs_growing = \<lparr>inside_vault = True, is_file = True, stat_size = (\<lambda>n. Some (100 + n)),
     exists_after = True,
     summarize = Inr \<lparr>saved_path = ''issue/issue_001_b.md'', name = ''issue_001_b.md''\<rparr>\<rparr>"

definition watch_known_a :: watch_state where
  "watch_known_a = \<lparr>enabled = True, known_files = {''a.md''}, vault_path = ''/vault'',
     processed_count = 0, last_processed_file = [], last_saved_path = [],
     last_processed_at = [], last_error = [], last_error_at = []\<rparr>"

definition tick_ab :: tick_env where
  "tick_ab = \<lparr>vault_is_dir = True, vault_text = ''/vault'', scan = {''a.md'', ''b.md''},
     files = (\<lambda>path. obs_growing), now_iso = ''2026-02-02T10:00:00'',
     others = (\<lambda>n st. st)\<rparr>"

text \<open>
  The condition of the specification for giving up: all the samples of the attempt budget
  find the file, and no \<open>need\<close> consecutive samples among them read the same size.
\<close>

definition identical_run :: "(nat \<Rightarrow> nat option) \<Rightarrow> nat \<Rightarrow> nat \<Rightarrow> bool" where
  "identical_run stat need j = list_all (\<lambda>i. stat i = stat j) [j ..< j + need]"

definition never_settles :: "(nat \<Rightarrow> nat option) \<Rightarrow> nat \<Rightarrow> bool" where
  "never_settles stat need =
     (let attempts = AUTO_WATCH_SETTLE_ATTEMPTS * 3
      in list_all (\<lambda>j. stat j \<noteq> None) [0 ..< attempts]
         \<and> list_all (\<lambda>j. \<not> identical_run stat need j) [0 ..< attempts + 1 - need])"

section \<open>The execution lock\<close>

text \<open>
  The asynchronous entry points of the two services. Those of the session service run
  under \<open>async with _SESSION_EXEC_LOCK\<close>; that of the batch service takes no lock.
\<close>

definition generate_with_claude_cli ::
  "env \<Rightarrow> settings \<Rightarrow> string \<Rightarrow> string \<Rightarrow> int option \<Rightarrow> session_state
   \<Rightarrow> (run_error + string) \<times> session_state \<times> effect list" where
  "generate_with_claude_cli e cfg transcript prompt timeout_sec st =
     (let timeout_value =
            (case timeout_sec of None \<Rightarrow> claude_cli_timeout_sec cfg | Some t \<Rightarrow> t)
      in (case run_claude e cfg transcript prompt timeout_value st of
            (r, st', fx) \<Rightarrow> (r, st', LockAcquire # fx @ [LockRelease])))"

definition stream_claude_cli ::
  "env \<Rightarrow> settings \<Rightarrow> string \<Rightarrow> string \<Rightarrow> int option \<Rightarrow> session_state
   \<Rightarrow> (stream_event list \<times> run_error option) \<times> session_state \<times> effect list" where
  "stream_claude_cli e cfg transcript prompt timeout_sec st =
     (case stream_claude_cli_locked e cfg transcript prompt timeout_sec st of
        (r, st', fx) \<Rightarrow> (r, st', LockAcquire # fx @ [LockRelease]))"

definition generate_with_codex_cli ::
  "env \<Rightarrow> settings \<Rightarrow> string \<Rightarrow> string \<Rightarrow> int option \<Rightarrow> (run_error + string) \<times> effect list" where
  "generate_with_codex_cli e cfg transcript prompt timeout_sec =
     (let timeout_value =
            (case timeout_sec of None \<Rightarrow> codex_cli_timeout_sec cfg | Some t \<Rightarrow> t)
      in run_codex e cfg transcript prompt timeout_value)"

text \<open>
  The router's own runner. \<open>_resolve_command\<close> of the router maps the engine name to a
  fixed argv; \<open>_run_subprocess_once\<close> starts it, with its own \<open>RuntimeError\<close>s: command
  not found, timeout, failure with the stripped stderr (and the return code, which the
  message shows when the stderr is empty), empty output with the stripped stderr.
\<close>

definition ai_resolve_command :: "string \<Rightarrow> string list" where
  "ai_resolve_command engine =
     (if engine = ''codex'' then [''codex'', ''exec''] else [''claude'', ''-p''])"

datatype once_error =
    CommandNotFound string
  | OnceTimeout int
  | OnceFailed int string
  | OnceEmpty string

definition run_subprocess_once ::
  "env \<Rightarrow> string list \<Rightarrow> string \<Rightarrow> int \<Rightarrow> (once_error + string) \<times> effect list" where
  "run_subprocess_once e command full_input timeout_sec =
     (case proc e command full_input timeout_sec of
        NotFound \<Rightarrow> (Inl (CommandNotFound (hd command)), [SpawnFailed command full_input])
      | Hangs out err \<Rightarrow> (Inl (OnceTimeout timeout_sec), [Spawn command full_input, Reaped])
      | Exits rc out err \<Rightarrow>
          let ai_output = strip out;
              stderr_text = strip err
          in if rc \<noteq> 0
             then (Inl (OnceFailed rc stderr_text), [Spawn command full_input, Reaped])
             else if ai_output = []
             then (Inl (OnceEmpty stderr_text), [Spawn command full_input, Reaped])
             else (Inr ai_output, [Spawn command full_input, Reaped]))"

text \<open>
  An argv runs the session-capable agent when the base name of its binary is \<open>claude\<close>,
  as \<open>_session_reuse_supported\<close> tests it.
\<close>

definition is_agent_command :: "string list \<Rightarrow> bool" where
  "is_agent_command command = (command \<noteq> [] \<and> lower (path_name (hd command)) = ''claude'')"

text \<open>
  The discipline of one invocation, read off its effects in order: it holds the lock
  whenever it starts a process or fails to, its process has ended before it releases the
  lock, and at the end it neither holds the lock nor has a process running. The two flags
  say whether the invocation holds the lock and whether its process is running.
\<close>

fun lock_discipline :: "bool \<Rightarrow> bool \<Rightarrow> effect list \<Rightarrow> bool" where
  "lock_discipline held alive [] = (\<not> held \<and> \<not> alive)"
| "lock_discipline held alive (LockAcquire # fx) = (\<not> held \<and> lock_discipline True alive fx)"
| "lock_discipline held alive (LockRelease # fx) =
     (held \<and> \<not> alive \<and> lock_discipline False alive fx)"
| "lock_discipline held alive (Spawn command input # fx) =
     (held \<and> \<not> alive \<and> lock_discipline held True fx)"
| "lock_discipline held alive (SpawnFailed command input # fx) =
     (held \<and> lock_discipline held alive fx)"
| "lock_discipline held alive (Reaped # fx) = (alive \<and> lock_discipline held False fx)"

text \<open>
  Invocations running as tasks of one event loop: a trace lists the effects of all tasks in
  the order in which they happen, each with the number of its task. \<open>lock_semantics\<close> is
  what \<open>asyncio.Lock\<close> guarantees of a trace (an acquire completes only while no task
  holds the lock, and the holder releases it), \<open>exclusive\<close> says that a process is started
  only while no process started earlier is still running. The first argument is the
  task holding the lock, respectively the task whose process is running.
\<close>

definition task_effects :: "nat \<Rightarrow> (nat \<times> effect) list \<Rightarrow> effect list" where
  "task_effects t trace = map snd (filter (\<lambda>ev. fst ev = t) trace)"

fun lock_semantics :: "nat option \<Rightarrow> (nat \<times> effect) list \<Rightarrow> bool" where
  "lock_semantics holder [] = True"
| "lock_semantics holder ((t, LockAcquire) # trace) =
     (holder = None \<and> lock_semantics (Some t) trace)"
| "lock_semantics holder ((t, LockRelease) # trace) =
     (holder = Some t \<and> lock_semantics None trace)"
| "lock_semantics holder ((t, ev) # trace) = lock_semantics holder trace"

fun exclusive :: "nat option \<Rightarrow> (nat \<times> effect) list \<Rightarrow> bool" where
  "exclusive running [] = True"
| "exclusive running ((t, Spawn command input) # trace) =
     (running = None \<and> exclusive (Some t) trace)"
| "exclusive running ((t, Reaped) # trace) = exclusive None trace"
| "exclusive running ((t, ev) # trace) = exclusive running trace"

text \<open>
  Two traces of two tasks: two calls of \<open>generate_with_claude_cli\<close> one after the other,
  and two calls of the router's runner with the engine \<open>claude\<close> whose processes overlap.
\<close>

definition trace_service :: "(nat \<times> effect) list" where
  "trace_service =
     map (Pair 1) (snd (snd (generate_with_claude_cli env_hi cfg_idle_600 ''one'' ''p'' None
                               SESSION_STATE_init)))
     @ map (Pair 2) (snd (snd (generate_with_claude_cli env_hi cfg_idle_600 ''two'' ''p'' None
                               (fst (snd (generate_with_claude_cli env_hi cfg_idle_600 ''one''
                                            ''p'' None SESSION_STATE_init))))))"

definition trace_router :: "(nat \<times> effect) list" where
  "trace_router =
     [(1, Spawn [''claude'', ''-p''] ''one''), (2, Spawn [''claude'', ''-p''] ''two''),
      (1, Reaped), (2, Reaped)]"

section \<open>Properties of the text functions\<close>

lemma dropWhile_all_iff: "(\<forall>x \<in> set (dropWhile P s). P x) \<longleftrightarrow> (\<forall>x \<in> set s. P x)"
  by (induction s) auto

lemma strip_Nil_iff: "strip s = [] \<longleftrightarrow> (\<forall>c \<in> set s. is_space c)"
  by (simp add: strip_def lstrip_def rstrip_def dropWhile_all_iff)

lemma last_strip: "strip s \<noteq> [] \<Longrightarrow> \<not> is_space (last (strip s))"
  unfolding strip_def rstrip_def lstrip_def
  by (metis hd_dropWhile last_rev rev_is_Nil_conv rev_rev_ident)

lemma rstrip_keeps_hd: "rstrip s \<noteq> [] \<Longrightarrow> hd (rstrip s) = hd s"
proof (induction s)
  case Nil
  then show ?case by (simp add: rstrip_def)
next
  case (Cons c cs)
  show ?case
  proof (cases "\<forall>x \<in> set cs. is_space x")
    case True
    then have "dropWhile is_space (rev cs @ [c]) = dropWhile is_space [c]"
      by (intro dropWhile_append2) simp
    with Cons.prems show ?thesis
      by (auto simp: rstrip_def split: if_splits)
  next
    case False
    then obtain x where "x \<in> set (rev cs)" "\<not> is_space x" by auto
    then have "dropWhile is_space (rev cs @ [c]) = dropWhile is_space (rev cs) @ [c]"
      by (rule dropWhile_append1)
    then show ?thesis by (simp add: rstrip_def)
  qed
qed

lemma hd_strip: "strip s \<noteq> [] \<Longrightarrow> \<not> is_space (hd (strip s))"
proof -
  assume a: "strip s \<noteq> []"
  then have n: "lstrip s \<noteq> []"
    by (auto simp: strip_def rstrip_def)
  have "hd (strip s) = hd (lstrip s)"
    using a rstrip_keeps_hd [of "lstrip s"] by (simp add: strip_def)
  with n show ?thesis
    by (simp add: lstrip_def hd_dropWhile)
qed

lemma concat_readlines: "concat (readlines s) = s"
  by (induction s) (auto split: list.splits)

section \<open>Properties of the streaming queue\<close>

lemma is_eof_simps [simp]:
  "is_eof (Eof ch) = True" "is_eof (Chunk ch t) = False" "is_eof (Done r) = False"
  by (simp_all add: is_eof_def)

lemma filter_last_pos: "q \<noteq> [] \<Longrightarrow> P (last q) \<Longrightarrow> 0 < length (filter P q)"
  by (induction q) (auto split: if_splits)

lemma consume_all:
  "n + length (filter is_eof q) = 2 \<Longrightarrow> q = [] \<or> is_eof (last q) \<Longrightarrow>
   consume q n so se ys =
     (True, so @ stdout_chunk_texts q, se @ stderr_rows q, ys @ filter (\<lambda>ev. \<not> is_eof ev) q)"
proof (induction q arbitrary: n so se ys)
  case Nil
  then show ?case by simp
next
  case (Cons ev q)
  from Cons.prems have pos: "0 < length (filter is_eof (ev # q))"
    by (intro filter_last_pos) auto
  with Cons.prems have n: "n < 2" by linarith
  show ?case
  proof (cases ev)
    case (Chunk ch t)
    with Cons.prems have "q \<noteq> []" by auto
    with Cons.prems Chunk have "n + length (filter is_eof q) = 2" "q = [] \<or> is_eof (last q)"
      by auto
    from Cons.IH [OF this] Chunk n show ?thesis
      by (cases ch) auto
  next
    case (Eof ch)
    with Cons.prems have "Suc n + length (filter is_eof q) = 2" "q = [] \<or> is_eof (last q)"
      by (auto split: if_splits)
    from Cons.IH [OF this] Eof n show ?thesis by auto
  next
    case (Done r)
    with Cons.prems have "q \<noteq> []" by auto
    with Cons.prems Done have "n + length (filter is_eof q) = 2" "q = [] \<or> is_eof (last q)"
      by auto
    from Cons.IH [OF this] Done n show ?thesis by auto
  qed
qed

lemma merge_queue_filter_length:
  "length (filter P (merge_queue sched xs ys)) = length (filter P xs) + length (filter P ys)"
  by (induction sched xs ys rule: merge_queue.induct) auto

lemma merge_queue_Nil_iff [simp]: "merge_queue sched xs ys = [] \<longleftrightarrow> xs = [] \<and> ys = []"
  by (induction sched xs ys rule: merge_queue.induct) auto

lemma merge_queue_last:
  "xs \<noteq> [] \<Longrightarrow> ys \<noteq> [] \<Longrightarrow> P (last xs) \<Longrightarrow> P (last ys) \<Longrightarrow> P (last (merge_queue sched xs ys))"
  by (induction sched xs ys rule: merge_queue.induct) (auto split: if_splits)

lemma stdout_texts_merge:
  "stdout_chunk_texts ys = [] \<Longrightarrow>
   stdout_chunk_texts (merge_queue sched xs ys) = stdout_chunk_texts xs"
  by (induction sched xs ys rule: merge_queue.induct)
     (auto split: stream_event.splits channel.splits)

lemma stderr_rows_merge:
  "stderr_rows xs = [] \<Longrightarrow> stderr_rows (merge_queue sched xs ys) = stderr_rows ys"
  by (induction sched xs ys rule: merge_queue.induct)
     (auto split: stream_event.splits channel.splits)

lemma pump_props:
  "pump ch ls \<noteq> []" "is_eof (last (pump ch ls))" "length (filter is_eof (pump ch ls)) = 1"
  by (induction ls) auto

lemma stdout_texts_pump:
  "stdout_chunk_texts (pump Stdout ls) = ls" "stdout_chunk_texts (pump Stderr ls) = []"
  "stderr_rows (pump Stderr ls) = ls" "stderr_rows (pump Stdout ls) = []"
  by (induction ls) auto

lemma consume_exits:
  "consume (event_queue sched (Exits rc out err)) 0 [] [] [] =
     (True, readlines out, readlines err,
      filter (\<lambda>ev. \<not> is_eof ev) (event_queue sched (Exits rc out err)))"
proof -
  let ?q = "merge_queue sched (pump Stdout (readlines out)) (pump Stderr (readlines err))"
  have 1: "0 + length (filter is_eof ?q) = 2"
    by (simp add: merge_queue_filter_length pump_props)
  have 2: "?q = [] \<or> is_eof (last ?q)"
    using merge_queue_last [where P = is_eof, OF pump_props(1) pump_props(1) pump_props(2) pump_props(2)]
    by blast
  show ?thesis
    using consume_all [OF 1 2, of "[]" "[]" "[]"]
    by (simp add: event_queue_def stdout_texts_merge stderr_rows_merge stdout_texts_pump)
qed


section \<open>What a successful run returns\<close>

lemma is_space_newlines [simp]: "is_space (CHR 0x0A)" "is_space (CHR 0x0D)"
  by (simp_all add: is_space_def)



lemma stdout_texts_no_eof:
  "stdout_chunk_texts (filter (\<lambda>ev. \<not> is_eof ev) q) = stdout_chunk_texts q"
  by (induction q) (auto split: stream_event.splits channel.splits)

lemma stdout_texts_append_Done:
  "stdout_chunk_texts (evs @ [Done r]) = stdout_chunk_texts evs"
  by (induction evs) (auto split: stream_event.splits channel.splits)

lemma stdout_texts_event_queue:
  "stdout_chunk_texts (event_queue sched (Exits rc out err)) = readlines out"
  by (simp add: event_queue_def stdout_texts_merge stdout_texts_pump)

lemma exit_status_simps [simp]:
  "exit_status (Exits rc out err) = Some rc" "exit_status (Hangs out err) = None"
  "exit_status NotFound = None"
  by (simp_all add: exit_status_def)

lemma run_codex_InrD:
  assumes "run_codex e cfg tr pr t = (Inr r, fx)"
  shows "\<exists>command out err.
           strip tr \<noteq> [] \<and> codex_resolve_command e cfg = Some command
           \<and> proc e command (build_full_input (strip tr) (strip pr)) (max 1 t) = Exits 0 out err
           \<and> r = strip (universal_newlines out) \<and> r \<noteq> []
           \<and> fx = [Spawn command (build_full_input (strip tr) (strip pr)), Reaped]"
proof -
  have m: "max 1 (if t = 0 then 1 else t) = max 1 t" by simp
  show ?thesis
    using assms unfolding run_codex_def Let_def subprocess_run_def m
    by (auto split: if_splits option.splits proc_behaviour.splits)
qed

lemma stream_codex_cli_exits0:
  assumes "strip tr \<noteq> []" "codex_resolve_command e cfg = Some command"
    and "proc e command (build_full_input (strip tr) (strip pr))
           (max 1 (case topt of None \<Rightarrow> codex_cli_timeout_sec cfg | Some t \<Rightarrow> t)) = Exits 0 out err"
    and "strip out \<noteq> []"
  shows "stream_codex_cli e cfg tr pr topt =
     ((filter (\<lambda>ev. \<not> is_eof ev) (event_queue (schedule e) (Exits 0 out err)) @ [Done (strip out)],
       None),
      [Spawn command (build_full_input (strip tr) (strip pr)), Reaped])"
  using assms unfolding stream_codex_cli_def Let_def
  by (simp add: consume_exits concat_readlines)

lemma stream_codex_cli_NoneD:
  assumes "stream_codex_cli e cfg tr pr topt = ((evs, None), fx)"
  shows "\<exists>command out err.
           strip tr \<noteq> [] \<and> codex_resolve_command e cfg = Some command
           \<and> proc e command (build_full_input (strip tr) (strip pr))
                (max 1 (case topt of None \<Rightarrow> codex_cli_timeout_sec cfg | Some t \<Rightarrow> t)) = Exits 0 out err
           \<and> strip out \<noteq> []"
proof -
  from assms have t: "strip tr \<noteq> []"
    unfolding stream_codex_cli_def Let_def by (auto split: if_splits)
  from assms t obtain command where c: "codex_resolve_command e cfg = Some command"
    unfolding stream_codex_cli_def Let_def by (auto split: if_splits option.splits)
  let ?b = "proc e command (build_full_input (strip tr) (strip pr))
                (max 1 (case topt of None \<Rightarrow> codex_cli_timeout_sec cfg | Some t \<Rightarrow> t))"
  show ?thesis
  proof (cases ?b)
    case NotFound
    with assms t c show ?thesis
      unfolding stream_codex_cli_def Let_def by simp
  next
    case (Hangs out err)
    with assms t c show ?thesis
      unfolding stream_codex_cli_def Let_def by (auto split: prod.splits if_splits)
  next
    case (Exits rc out err)
    with assms t c show ?thesis
      unfolding stream_codex_cli_def Let_def
      by (auto simp: consume_exits concat_readlines split: if_splits)
  qed
qed

lemma run_claude_InrD:
  assumes "run_claude e cfg tr pr t st = (Inr r, st', fx)"
  shows "\<exists>base command session_id st1 out err.
           strip tr \<noteq> [] \<and> claude_resolve_command e cfg = Some base
           \<and> build_command_with_session e cfg base st = ((command, session_id), st1)
           \<and> proc e command (build_full_input (strip tr) (strip pr)) (max 1 t) = Exits 0 out err
           \<and> r = strip (universal_newlines out) \<and> r \<noteq> []
           \<and> st' = touch_session (touch_time e) session_id True st1
           \<and> fx = [Spawn command (build_full_input (strip tr) (strip pr)), Reaped]"
proof -
  have m: "max 1 (if t = 0 then 1 else t) = max 1 t" by simp
  show ?thesis
    using assms unfolding run_claude_def Let_def subprocess_run_def m
    by (auto split: if_splits option.splits proc_behaviour.splits prod.splits)
qed

lemma stream_claude_cli_locked_exits0:
  assumes "strip tr \<noteq> []" "claude_resolve_command e cfg = Some base"
    and "build_command_with_session e cfg base st = ((command, session_id), st1)"
    and "proc e command (build_full_input (strip tr) (strip pr))
           (max 1 (case topt of None \<Rightarrow> claude_cli_timeout_sec cfg | Some t \<Rightarrow> t)) = Exits 0 out err"
    and "strip out \<noteq> []"
  shows "stream_claude_cli_locked e cfg tr pr topt st =
     ((filter (\<lambda>ev. \<not> is_eof ev) (event_queue (schedule e) (Exits 0 out err)) @ [Done (strip out)],
       None),
      touch_session (touch_time e) session_id True st1,
      [Spawn command (build_full_input (strip tr) (strip pr)), Reaped])"
  using assms unfolding stream_claude_cli_locked_def Let_def
  by (simp add: consume_exits concat_readlines)

lemma stream_claude_cli_locked_NoneD:
  assumes "stream_claude_cli_locked e cfg tr pr topt st = ((evs, None), st', fx)"
  shows "\<exists>base command session_id st1 out err.
           strip tr \<noteq> [] \<and> claude_resolve_command e cfg = Some base
           \<and> build_command_with_session e cfg base st = ((command, session_id), st1)
           \<and> proc e command (build_full_input (strip tr) (strip pr))
                (max 1 (case topt of None \<Rightarrow> claude_cli_timeout_sec cfg | Some t \<Rightarrow> t)) = Exits 0 out err
           \<and> strip out \<noteq> []"
proof -
  from assms have t: "strip tr \<noteq> []"
    unfolding stream_claude_cli_locked_def Let_def by (auto split: if_splits)
  from assms t obtain base where c: "claude_resolve_command e cfg = Some base"
    unfolding stream_claude_cli_locked_def Let_def by (auto split: if_splits option.splits)
  obtain command session_id st1 where
    b: "build_command_with_session e cfg base st = ((command, session_id), st1)"
    by (metis prod.exhaust)
  let ?b = "proc e command (build_full_input (strip tr) (strip pr))
                (max 1 (case topt of None \<Rightarrow> claude_cli_timeout_sec cfg | Some t \<Rightarrow> t))"
  show ?thesis
  proof (cases ?b)
    case NotFound
    with assms t c b show ?thesis
      unfolding stream_claude_cli_locked_def Let_def by simp
  next
    case (Hangs out err)
    with assms t c b show ?thesis
      unfolding stream_claude_cli_locked_def Let_def by (auto split: prod.splits if_splits)
  next
    case (Exits rc out err)
    with assms t c b show ?thesis
      unfolding stream_claude_cli_locked_def Let_def
      by (auto simp: consume_exits concat_readlines split: if_splits)
  qed
qed

lemma stdout_texts_success_events:
  "concat (stdout_chunk_texts
     (filter (\<lambda>ev. \<not> is_eof ev) (event_queue sched (Exits rc out err)) @ [Done r])) = out"
  by (simp add: stdout_texts_append_Done stdout_texts_no_eof stdout_texts_event_queue
      concat_readlines)

section \<open>Streaming against the buffered run\<close>




section \<open>Input validation\<close>

text \<open>
  C7. A source text that is empty or consists of white space only makes each of the four
  runners fail with the input-validation error, with no effect at all: no process is
  started and the session slot is as before.
\<close>

theorem empty_source_text_rejected:
  "list_all is_space transcript \<Longrightarrow>
     run_claude e cfg transcript prompt t st = (Inl EmptySourceText, st, [])
   \<and> run_codex e cfg transcript prompt t = (Inl EmptySourceText, [])
   \<and> stream_claude_cli_locked e cfg transcript prompt topt st
       = (([], Some EmptySourceText), st, [])
   \<and> stream_codex_cli e cfg transcript prompt topt = (([], Some EmptySourceText), [])"
proof -
  assume "list_all is_space transcript"
  then have "strip transcript = []"
    by (simp add: strip_Nil_iff list_all_iff)
  then show ?thesis
    by (simp add: run_claude_def run_codex_def stream_claude_cli_locked_def
        stream_codex_cli_def)
qed

theorem empty_source_text_rejected_witness:
  "list_all is_space [CHR '' '', CHR 0x09, CHR 0x0A]
   \<and> run_claude env_hi cfg_idle_600 [CHR '' '', CHR 0x09, CHR 0x0A] ''p'' 600 SESSION_STATE_init
       = (Inl EmptySourceText, SESSION_STATE_init, [])
   \<and> run_codex env_hi cfg_idle_600 [CHR '' '', CHR 0x09, CHR 0x0A] ''p'' 600
       = (Inl EmptySourceText, [])
   \<and> stream_claude_cli_locked env_hi cfg_idle_600 [CHR '' '', CHR 0x09, CHR 0x0A] ''p'' None
        SESSION_STATE_init = (([], Some EmptySourceText), SESSION_STATE_init, [])
   \<and> stream_codex_cli env_hi cfg_idle_600 [CHR '' '', CHR 0x09, CHR 0x0A] ''p'' None
       = (([], Some EmptySourceText), [])"
proof -
  have h: "list_all is_space [CHR '' '', CHR 0x09, CHR 0x0A]"
    by (simp add: is_space_def)
  from empty_source_text_rejected [OF h] h show ?thesis by blast
qed

section \<open>The result of a successful run\<close>

lemma strip_ends:
  "strip s \<noteq> [] \<Longrightarrow> \<not> is_space (hd (strip s)) \<and> \<not> is_space (last (strip s))"
  by (simp add: hd_strip last_strip)

text \<open>
  C10. When \<open>run_codex\<close> or \<open>run_claude\<close> returns a string, the process it started was
  captured with return code 0 and the string is the captured standard output
  (\<open>proc.stdout\<close>) stripped at both ends. When a streaming run ends without an error, its
  last event is the \<open>done\<close> event and carries the process's standard output, which is the
  concatenation of the stdout chunks, stripped at both ends. In all four cases the result
  is not empty and neither starts nor ends with white space.
\<close>

theorem successful_result_is_stripped_stdout:
  "(\<forall>r fx. run_codex e cfg tr pr t = (Inr r, fx) \<longrightarrow>
      (\<exists>command full_input timeout_value p.
          fx = [Spawn command full_input, Reaped]
        \<and> fst (subprocess_run command full_input (proc e command full_input timeout_value))
            = Completed p
        \<and> returncode p = 0 \<and> r = strip (stdout p))
      \<and> r \<noteq> [] \<and> \<not> is_space (hd r) \<and> \<not> is_space (last r))
   \<and> (\<forall>r st' fx. run_claude e cfg tr pr t st = (Inr r, st', fx) \<longrightarrow>
      (\<exists>command full_input timeout_value p.
          fx = [Spawn command full_input, Reaped]
        \<and> fst (subprocess_run command full_input (proc e command full_input timeout_value))
            = Completed p
        \<and> returncode p = 0 \<and> r = strip (stdout p))
      \<and> r \<noteq> [] \<and> \<not> is_space (hd r) \<and> \<not> is_space (last r))
   \<and> (\<forall>evs fx. stream_codex_cli e cfg tr pr topt = ((evs, None), fx) \<longrightarrow>
      (\<exists>command full_input timeout_value out err r.
          fx = [Spawn command full_input, Reaped]
        \<and> proc e command full_input timeout_value = Exits 0 out err
        \<and> out = concat (stdout_chunk_texts evs)
        \<and> last evs = Done r \<and> r = strip out
        \<and> r \<noteq> [] \<and> \<not> is_space (hd r) \<and> \<not> is_space (last r)))
   \<and> (\<forall>evs st' fx. stream_claude_cli_locked e cfg tr pr topt st = ((evs, None), st', fx) \<longrightarrow>
      (\<exists>command full_input timeout_value out err r.
          fx = [Spawn command full_input, Reaped]
        \<and> proc e command full_input timeout_value = Exits 0 out err
        \<and> out = concat (stdout_chunk_texts evs)
        \<and> last evs = Done r \<and> r = strip out
        \<and> r \<noteq> [] \<and> \<not> is_space (hd r) \<and> \<not> is_space (last r)))"
proof (intro conjI allI impI)
  fix r fx
  assume "run_codex e cfg tr pr t = (Inr r, fx)"
  from run_codex_InrD [OF this] obtain command out err where
    p: "proc e command (build_full_input (strip tr) (strip pr)) (max 1 t) = Exits 0 out err"
    and r: "r = strip (universal_newlines out)" "r \<noteq> []"
    and fx: "fx = [Spawn command (build_full_input (strip tr) (strip pr)), Reaped]"
    by blast
  from p r fx
  show "\<exists>command full_input timeout_value p.
          fx = [Spawn command full_input, Reaped]
        \<and> fst (subprocess_run command full_input (proc e command full_input timeout_value))
            = Completed p
        \<and> returncode p = 0 \<and> r = strip (stdout p)"
    by (intro exI [of _ command] exI [of _ "build_full_input (strip tr) (strip pr)"]
        exI [of _ "max 1 t"]
        exI [of _ "\<lparr>returncode = 0, stdout = universal_newlines out,
                     stderr = universal_newlines err\<rparr>"])
      (simp add: subprocess_run_def)
  from r show "r \<noteq> []" by simp
  from r strip_ends [of "universal_newlines out"]
  show "\<not> is_space (hd r)" "\<not> is_space (last r)" by simp_all
next
  fix r st' fx
  assume "run_claude e cfg tr pr t st = (Inr r, st', fx)"
  from run_claude_InrD [OF this] obtain command out err where
    p: "proc e command (build_full_input (strip tr) (strip pr)) (max 1 t) = Exits 0 out err"
    and r: "r = strip (universal_newlines out)" "r \<noteq> []"
    and fx: "fx = [Spawn command (build_full_input (strip tr) (strip pr)), Reaped]"
    by blast
  from p r fx
  show "\<exists>command full_input timeout_value p.
          fx = [Spawn command full_input, Reaped]
        \<and> fst (subprocess_run command full_input (proc e command full_input timeout_value))
            = Completed p
        \<and> returncode p = 0 \<and> r = strip (stdout p)"
    by (intro exI [of _ command] exI [of _ "build_full_input (strip tr) (strip pr)"]
        exI [of _ "max 1 t"]
        exI [of _ "\<lparr>returncode = 0, stdout = universal_newlines out,
                     stderr = universal_newlines err\<rparr>"])
      (simp add: subprocess_run_def)
  from r show "r \<noteq> []" by simp
  from r strip_ends [of "universal_newlines out"]
  show "\<not> is_space (hd r)" "\<not> is_space (last r)" by simp_all
next
  fix evs fx
  assume a: "stream_codex_cli e cfg tr pr topt = ((evs, None), fx)"
  let ?tv = "max 1 (case topt of None \<Rightarrow> codex_cli_timeout_sec cfg | Some t \<Rightarrow> t)"
  from stream_codex_cli_NoneD [OF a] obtain command out err where
    tr: "strip tr \<noteq> []" and c: "codex_resolve_command e cfg = Some command"
    and p: "proc e command (build_full_input (strip tr) (strip pr)) ?tv = Exits 0 out err"
    and out: "strip out \<noteq> []"
    by blast
  from stream_codex_cli_exits0 [OF tr c p out] a
  have evs: "evs = filter (\<lambda>ev. \<not> is_eof ev) (event_queue (schedule e) (Exits 0 out err))
                    @ [Done (strip out)]"
    and fx: "fx = [Spawn command (build_full_input (strip tr) (strip pr)), Reaped]"
    by simp_all
  have "concat (stdout_chunk_texts evs) = out"
    unfolding evs by (rule stdout_texts_success_events)
  with p out fx evs strip_ends [OF out]
  show "\<exists>command full_input timeout_value out err r.
          fx = [Spawn command full_input, Reaped]
        \<and> proc e command full_input timeout_value = Exits 0 out err
        \<and> out = concat (stdout_chunk_texts evs)
        \<and> last evs = Done r \<and> r = strip out
        \<and> r \<noteq> [] \<and> \<not> is_space (hd r) \<and> \<not> is_space (last r)"
    by (intro exI [of _ command] exI [of _ "build_full_input (strip tr) (strip pr)"]
        exI [of _ ?tv] exI [of _ out] exI [of _ err] exI [of _ "strip out"]) simp
next
  fix evs st' fx
  assume a: "stream_claude_cli_locked e cfg tr pr topt st = ((evs, None), st', fx)"
  let ?tv = "max 1 (case topt of None \<Rightarrow> claude_cli_timeout_sec cfg | Some t \<Rightarrow> t)"
  from stream_claude_cli_locked_NoneD [OF a] obtain base command session_id st1 out err where
    tr: "strip tr \<noteq> []" and c: "claude_resolve_command e cfg = Some base"
    and b: "build_command_with_session e cfg base st = ((command, session_id), st1)"
    and p: "proc e command (build_full_input (strip tr) (strip pr)) ?tv = Exits 0 out err"
    and out: "strip out \<noteq> []"
    by blast
  from stream_claude_cli_locked_exits0 [OF tr c b p out] a
  have evs: "evs = filter (\<lambda>ev. \<not> is_eof ev) (event_queue (schedule e) (Exits 0 out err))
                    @ [Done (strip out)]"
    and fx: "fx = [Spawn command (build_full_input (strip tr) (strip pr)), Reaped]"
    by simp_all
  have "concat (stdout_chunk_texts evs) = out"
    unfolding evs by (rule stdout_texts_success_events)
  with p out fx evs strip_ends [OF out]
  show "\<exists>command full_input timeout_value out err r.
          fx = [Spawn command full_input, Reaped]
        \<and> proc e command full_input timeout_value = Exits 0 out err
        \<and> out = concat (stdout_chunk_texts evs)
        \<and> last evs = Done r \<and> r = strip out
        \<and> r \<noteq> [] \<and> \<not> is_space (hd r) \<and> \<not> is_space (last r)"
    by (intro exI [of _ command] exI [of _ "build_full_input (strip tr) (strip pr)"]
        exI [of _ ?tv] exI [of _ out] exI [of _ err] exI [of _ "strip out"]) simp
qed

theorem successful_result_is_stripped_stdout_witness:
  "run_codex env_hi cfg_idle_600 ''text'' ''p'' 600
     = (Inr ''hi'', [Spawn [''codex'', ''exec''] (build_full_input ''text'' ''p''), Reaped])
   \<and> run_claude env_hi cfg_idle_600 ''text'' ''p'' 600 SESSION_STATE_init
     = (Inr ''hi'', \<lparr>sid = ''u1'', turns = 1, last_used = 2\<rparr>,
        [Spawn [''claude'', ''-p'', ''--session-id'', ''u1''] (build_full_input ''text'' ''p''),
         Reaped])
   \<and> ''hi'' \<noteq> [] \<and> \<not> is_space (hd ''hi'') \<and> \<not> is_space (last ''hi'')
   \<and> (\<exists>command full_input timeout_value p.
          fst (subprocess_run command full_input (proc env_hi command full_input timeout_value))
            = Completed p
        \<and> returncode p = 0 \<and> ''hi'' = strip (stdout p))
   \<and> stream_codex_cli env_hi cfg_idle_600 ''text'' ''p'' None
     = (([Chunk Stdout ''hi\<newline>'', Done ''hi''], None),
        [Spawn [''codex'', ''exec''] (build_full_input ''text'' ''p''), Reaped])
   \<and> stream_claude_cli_locked env_hi cfg_idle_600 ''text'' ''p'' None SESSION_STATE_init
     = (([Chunk Stdout ''hi\<newline>'', Done ''hi''], None),
        \<lparr>sid = ''u1'', turns = 1, last_used = 2\<rparr>,
        [Spawn [''claude'', ''-p'', ''--session-id'', ''u1''] (build_full_input ''text'' ''p''),
         Reaped])
   \<and> (\<exists>command full_input timeout_value out err.
          proc env_hi command full_input timeout_value = Exits 0 out err
        \<and> out = concat (stdout_chunk_texts [Chunk Stdout ''hi\<newline>'', Done ''hi''])
        \<and> Done ''hi'' = Done (strip out))"
proof -
  have 1: "run_codex env_hi cfg_idle_600 ''text'' ''p'' 600
     = (Inr ''hi'', [Spawn [''codex'', ''exec''] (build_full_input ''text'' ''p''), Reaped])"
    by code_simp
  have 2: "run_claude env_hi cfg_idle_600 ''text'' ''p'' 600 SESSION_STATE_init
     = (Inr ''hi'', \<lparr>sid = ''u1'', turns = 1, last_used = 2\<rparr>,
        [Spawn [''claude'', ''-p'', ''--session-id'', ''u1''] (build_full_input ''text'' ''p''),
         Reaped])"
    by code_simp
  have 3: "stream_codex_cli env_hi cfg_idle_600 ''text'' ''p'' None
     = (([Chunk Stdout ''hi\<newline>'', Done ''hi''], None),
        [Spawn [''codex'', ''exec''] (build_full_input ''text'' ''p''), Reaped])"
    by code_simp
  have 4: "stream_claude_cli_locked env_hi cfg_idle_600 ''text'' ''p'' None SESSION_STATE_init
     = (([Chunk Stdout ''hi\<newline>'', Done ''hi''], None),
        \<lparr>sid = ''u1'', turns = 1, last_used = 2\<rparr>,
        [Spawn [''claude'', ''-p'', ''--session-id'', ''u1''] (build_full_input ''text'' ''p''),
         Reaped])"
    by code_simp
  note T = successful_result_is_stripped_stdout
      [of env_hi cfg_idle_600 "''text''" "''p''" 600 SESSION_STATE_init None]
  from T [THEN conjunct2, THEN conjunct1, rule_format, OF 2]
  have a: "(\<exists>command full_input timeout_value p.
          fst (subprocess_run command full_input (proc env_hi command full_input timeout_value))
            = Completed p
        \<and> returncode p = 0 \<and> ''hi'' = strip (stdout p))
      \<and> ''hi'' \<noteq> [] \<and> \<not> is_space (hd ''hi'') \<and> \<not> is_space (last ''hi'')"
    by blast
  from T [THEN conjunct2, THEN conjunct2, THEN conjunct1, rule_format, OF 3]
  have b: "\<exists>command full_input timeout_value out err.
          proc env_hi command full_input timeout_value = Exits 0 out err
        \<and> out = concat (stdout_chunk_texts [Chunk Stdout ''hi\<newline>'', Done ''hi''])
        \<and> Done ''hi'' = Done (strip out)"
    by (elim exE conjE) (simp, blast)
  from 1 2 3 4 a b show ?thesis by blast
qed

section \<open>The session lease\<close>




section \<open>Reset on a session error\<close>

lemma lease_on_empty_slot:
  "sid st = [] \<Longrightarrow>
   lease_session_id cfg now u st = ((u, True), \<lparr>sid = u, turns = 0, last_used = now\<rparr>)"
  by (simp add: lease_session_id_def Let_def)

lemma lease_session_id_sid:
  "lease_session_id cfg now u st = ((i, c), st') \<Longrightarrow> sid st' = i"
  by (auto simp: lease_session_id_def Let_def split: if_splits)

lemma reset_after_touch:
  "sid st1 = i \<Longrightarrow> sid (reset_session i (touch_session now i ok st1)) = []"
  by (auto simp: reset_session_def touch_session_def Let_def)

text \<open>
  C3. Take a call of \<open>run_claude\<close>, or of its streaming variant, for which session reuse
  is in force (reuse is enabled and the resolved command is the session-capable agent
  without session flags), so that the command carries the leased session id. If its
  process exits with a non-zero code and its captured, stripped stderr names a session
  together with \<open>not found\<close> or \<open>invalid\<close>, the call fails with the non-zero-exit error
  carrying that return code and that stderr, the session slot is empty afterwards, and
  the next lease, under any settings and at any time, mints a new id.
\<close>

theorem lost_session_resets_slot:
  assumes base: "claude_resolve_command e cfg = Some base"
    and reuse: "session_reuse_supported cfg base"
    and nonblank: "strip tr \<noteq> []"
    and command: "command = base @ [''--session-id'',
        fst (fst (lease_session_id cfg (lease_time e) (uuid4 e) st))]"
    and rc: "rc \<noteq> 0"
  shows "(proc e command (build_full_input (strip tr) (strip pr)) (max 1 t) = Exits rc out err
          \<and> mentions_lost_session (strip (universal_newlines err)) \<longrightarrow>
            fst (run_claude e cfg tr pr t st)
              = Inl (NonZeroExit rc (strip (universal_newlines err)))
          \<and> sid (fst (snd (run_claude e cfg tr pr t st))) = []
          \<and> (\<forall>cfg' now u. lease_session_id cfg' now u (fst (snd (run_claude e cfg tr pr t st)))
                = ((u, True), \<lparr>sid = u, turns = 0, last_used = now\<rparr>)))
    \<and> (proc e command (build_full_input (strip tr) (strip pr))
           (max 1 (case topt of None \<Rightarrow> claude_cli_timeout_sec cfg | Some t' \<Rightarrow> t'))
           = Exits rc out err
          \<and> mentions_lost_session (strip err) \<longrightarrow>
            snd (fst (stream_claude_cli_locked e cfg tr pr topt st))
              = Some (NonZeroExit rc (strip err))
          \<and> sid (fst (snd (stream_claude_cli_locked e cfg tr pr topt st))) = []
          \<and> (\<forall>cfg' now u. lease_session_id cfg' now u
                  (fst (snd (stream_claude_cli_locked e cfg tr pr topt st)))
                = ((u, True), \<lparr>sid = u, turns = 0, last_used = now\<rparr>)))"
proof (intro conjI impI)
  obtain i c st1 where l: "lease_session_id cfg (lease_time e) (uuid4 e) st = ((i, c), st1)"
    by (metis prod.exhaust)
  then have i: "sid st1 = i" by (rule lease_session_id_sid)
  from command l have cmd: "command = base @ [''--session-id'', i]" by simp
  have m: "max 1 (if t = 0 then 1 else t) = max 1 t" by simp
  {
    let ?err = "strip (universal_newlines err)"
    assume a: "proc e command (build_full_input (strip tr) (strip pr)) (max 1 t) = Exits rc out err
          \<and> mentions_lost_session ?err"
    then have ne: "lower ?err \<noteq> []"
      by (auto simp: mentions_lost_session_def)
    have run: "run_claude e cfg tr pr t st =
        (Inl (NonZeroExit rc ?err), reset_session i (touch_session (touch_time e) i False st1),
         [Spawn command (build_full_input (strip tr) (strip pr)), Reaped])"
      using base reuse nonblank a rc ne l cmd
      unfolding run_claude_def build_command_with_session_def Let_def m
      by (simp add: subprocess_run_def maybe_reset_session_from_error_def
          mentions_lost_session_def)
    show "fst (run_claude e cfg tr pr t st) = Inl (NonZeroExit rc ?err)"
      unfolding run by simp
    show s: "sid (fst (snd (run_claude e cfg tr pr t st))) = []"
      unfolding run using i by (simp add: reset_after_touch)
    show "\<forall>cfg' now u. lease_session_id cfg' now u (fst (snd (run_claude e cfg tr pr t st)))
                = ((u, True), \<lparr>sid = u, turns = 0, last_used = now\<rparr>)"
      using s by (simp add: lease_on_empty_slot)
  }
  {
    let ?tv = "max 1 (case topt of None \<Rightarrow> claude_cli_timeout_sec cfg | Some t' \<Rightarrow> t')"
    assume a: "proc e command (build_full_input (strip tr) (strip pr)) ?tv = Exits rc out err
          \<and> mentions_lost_session (strip err)"
    then have ne: "lower (strip err) \<noteq> []"
      by (auto simp: mentions_lost_session_def)
    have run: "stream_claude_cli_locked e cfg tr pr topt st =
        ((filter (\<lambda>ev. \<not> is_eof ev) (event_queue (schedule e) (Exits rc out err)),
          Some (NonZeroExit rc (strip err))),
         reset_session i (touch_session (touch_time e) i False st1),
         [Spawn command (build_full_input (strip tr) (strip pr)), Reaped])"
      using base reuse nonblank a rc ne l cmd
      unfolding stream_claude_cli_locked_def build_command_with_session_def Let_def
      by (simp add: consume_exits concat_readlines maybe_reset_session_from_error_def
          mentions_lost_session_def)
    show "snd (fst (stream_claude_cli_locked e cfg tr pr topt st))
        = Some (NonZeroExit rc (strip err))"
      unfolding run by simp
    show s: "sid (fst (snd (stream_claude_cli_locked e cfg tr pr topt st))) = []"
      unfolding run using i by (simp add: reset_after_touch)
    show "\<forall>cfg' now u. lease_session_id cfg' now u
                  (fst (snd (stream_claude_cli_locked e cfg tr pr topt st)))
                = ((u, True), \<lparr>sid = u, turns = 0, last_used = now\<rparr>)"
      using s by (simp add: lease_on_empty_slot)
  }
qed

theorem lost_session_resets_slot_witness:
  "fst (run_claude env_lost cfg_idle_600 ''text'' ''p'' 600 session_old)
     = Inl (NonZeroExit 2 ''Error: Session not found'')
   \<and> sid (fst (snd (run_claude env_lost cfg_idle_600 ''text'' ''p'' 600 session_old))) = []
   \<and> (\<forall>cfg' now u. lease_session_id cfg' now u
          (fst (snd (run_claude env_lost cfg_idle_600 ''text'' ''p'' 600 session_old)))
          = ((u, True), \<lparr>sid = u, turns = 0, last_used = now\<rparr>))
   \<and> snd (fst (stream_claude_cli_locked env_lost cfg_idle_600 ''text'' ''p'' None session_old))
     = Some (NonZeroExit 2 ''Error: Session not found'')
   \<and> sid (fst (snd (stream_claude_cli_locked env_lost cfg_idle_600 ''text'' ''p'' None
                       session_old))) = []"
proof -
  have base: "claude_resolve_command env_lost cfg_idle_600 = Some [''claude'', ''-p'']"
    by code_simp
  have reuse: "session_reuse_supported cfg_idle_600 [''claude'', ''-p'']"
    by code_simp
  have nonblank: "strip ''text'' \<noteq> []"
    by code_simp
  have rc: "(2 :: int) \<noteq> 0" by simp
  let ?err = "''Error: Session not found\<newline>''"
  note T = lost_session_resets_slot [OF base reuse nonblank refl rc,
      where st = session_old and pr = "''p''" and t = 600 and out = "[]" and err = ?err
        and topt = None]
  have p: "proc env_lost c i tv = Exits 2 [] ?err" for c i tv
    by (simp add: env_lost_def)
  have lost: "mentions_lost_session (strip (universal_newlines ?err))"
    "mentions_lost_session (strip ?err)"
    by code_simp+
  have s: "strip (universal_newlines ?err) = ''Error: Session not found''"
    "strip ?err = ''Error: Session not found''"
    by code_simp+
  from T [THEN conjunct1, rule_format, OF conjI [OF p lost(1)]]
    T [THEN conjunct2, rule_format, OF conjI [OF p lost(2)]] s
  show ?thesis by simp
qed

section \<open>Command resolution\<close>

lemma second_token_iff:
  "(1 < length xs \<and> xs ! 1 \<in> S) \<longleftrightarrow> \<not> (tl xs = [] \<or> hd (tl xs) \<notin> S)"
  by (cases xs; cases "tl xs") auto

lemma claude_resolve_command_tokens:
  assumes "strip (if claude_cli_command cfg = [] then ''claude'' else claude_cli_command cfg) = txt"
    and "txt \<noteq> []" "shlex_split e txt = Some command" "command \<noteq> []"
  shows "claude_resolve_command e cfg =
     (if lower (path_name (hd command)) = ''claude''
         \<and> ''-p'' \<notin> set (tl command) \<and> ''--print'' \<notin> set (tl command)
         \<and> (tl command = [] \<or> hd (tl command) \<notin> set claude_subcommands)
      then Some (hd command # ''-p'' # tl command)
      else Some command)"
proof -
  from assms(4) obtain c0 rest where c: "command = c0 # rest"
    by (cases command) auto
  show ?thesis
    using assms unfolding claude_resolve_command_def Let_def c
    by (cases rest) (auto simp: list_ex_iff)
qed

lemma codex_resolve_command_tokens:
  assumes "strip (if codex_cli_command cfg = [] then ''codex'' else codex_cli_command cfg) = txt"
    and "txt \<noteq> []" "shlex_split e txt = Some command" "command \<noteq> []"
  shows "codex_resolve_command e cfg =
     (if lower (path_name (hd command)) = ''codex''
         \<and> (tl command = [] \<or> hd (tl command) \<notin> set codex_subcommands)
      then Some (hd command # ''exec'' # tl command)
      else Some command)"
proof -
  from assms(4) obtain c0 rest where c: "command = c0 # rest"
    by (cases command) auto
  show ?thesis
    using assms unfolding codex_resolve_command_def Let_def c
    by (cases rest) auto
qed

lemma claude_resolve_command_blank:
  "strip (if claude_cli_command cfg = [] then ''claude'' else claude_cli_command cfg) = []
   \<Longrightarrow> claude_resolve_command e cfg = Some [''claude'', ''-p'']"
  unfolding claude_resolve_command_def Let_def
  by (simp add: path_name_def lower_def lower_char_def claude_subcommands_def)

lemma codex_resolve_command_blank:
  "strip (if codex_cli_command cfg = [] then ''codex'' else codex_cli_command cfg) = []
   \<Longrightarrow> codex_resolve_command e cfg = Some [''codex'', ''exec'']"
  unfolding codex_resolve_command_def Let_def
  by (simp add: path_name_def lower_def lower_char_def codex_subcommands_def)


text \<open>
  C8. Let the configured command (the agent's bare name when none is configured) be
  non-blank and let the tokenizer split it into at least one token. If the base name of
  the first token is \<open>claude\<close> in any letter case, no later token is \<open>-p\<close> or \<open>--print\<close>,
  and the second token, if any, is not a claude subcommand, \<open>_resolve_command\<close> returns the
  tokens with \<open>-p\<close> inserted right after the first; otherwise it returns the tokens as
  they are. The codex resolver does the same with \<open>exec\<close>, looking only at the base name
  \<open>codex\<close> and at the second token. Both are idempotent: a configured command whose
  tokens are an already resolved command resolves to that same command.
\<close>

theorem resolve_command_inserts_default:
  assumes "claude_text = strip (if claude_cli_command cfg = [] then ''claude''
                                else claude_cli_command cfg)"
    and "codex_text = strip (if codex_cli_command cfg = [] then ''codex''
                             else codex_cli_command cfg)"
  shows "(\<forall>command. claude_text \<noteq> [] \<and> shlex_split e claude_text = Some command
                    \<and> command \<noteq> [] \<longrightarrow>
            claude_resolve_command e cfg =
              (if lower (path_name (hd command)) = ''claude''
                  \<and> ''-p'' \<notin> set (tl command) \<and> ''--print'' \<notin> set (tl command)
                  \<and> (tl command = [] \<or> hd (tl command) \<notin> set claude_subcommands)
               then Some (hd command # ''-p'' # tl command)
               else Some command))
    \<and> (\<forall>command. codex_text \<noteq> [] \<and> shlex_split e codex_text = Some command
                    \<and> command \<noteq> [] \<longrightarrow>
            codex_resolve_command e cfg =
              (if lower (path_name (hd command)) = ''codex''
                  \<and> (tl command = [] \<or> hd (tl command) \<notin> set codex_subcommands)
               then Some (hd command # ''exec'' # tl command)
               else Some command))
    \<and> (\<forall>r (e' :: env) (cfg' :: settings). claude_resolve_command e cfg = Some r
            \<and> (claude_text = [] \<or> shlex_split e claude_text \<noteq> Some [])
            \<and> claude_cli_command cfg' \<noteq> [] \<and> strip (claude_cli_command cfg') \<noteq> []
            \<and> shlex_split e' (strip (claude_cli_command cfg')) = Some r \<longrightarrow>
            claude_resolve_command e' cfg' = Some r)
    \<and> (\<forall>r (e' :: env) (cfg' :: settings). codex_resolve_command e cfg = Some r
            \<and> (codex_text = [] \<or> shlex_split e codex_text \<noteq> Some [])
            \<and> codex_cli_command cfg' \<noteq> [] \<and> strip (codex_cli_command cfg') \<noteq> []
            \<and> shlex_split e' (strip (codex_cli_command cfg')) = Some r \<longrightarrow>
            codex_resolve_command e' cfg' = Some r)"
proof (intro conjI allI impI)
  fix command
  assume "claude_text \<noteq> [] \<and> shlex_split e claude_text = Some command \<and> command \<noteq> []"
  then show "claude_resolve_command e cfg =
              (if lower (path_name (hd command)) = ''claude''
                  \<and> ''-p'' \<notin> set (tl command) \<and> ''--print'' \<notin> set (tl command)
                  \<and> (tl command = [] \<or> hd (tl command) \<notin> set claude_subcommands)
               then Some (hd command # ''-p'' # tl command)
               else Some command)"
    using claude_resolve_command_tokens [OF assms(1) [symmetric]] by blast
next
  fix command
  assume "codex_text \<noteq> [] \<and> shlex_split e codex_text = Some command \<and> command \<noteq> []"
  then show "codex_resolve_command e cfg =
              (if lower (path_name (hd command)) = ''codex''
                  \<and> (tl command = [] \<or> hd (tl command) \<notin> set codex_subcommands)
               then Some (hd command # ''exec'' # tl command)
               else Some command)"
    using codex_resolve_command_tokens [OF assms(2) [symmetric]] by blast
next
  fix r and e' :: env and cfg' :: settings
  assume a: "claude_resolve_command e cfg = Some r
            \<and> (claude_text = [] \<or> shlex_split e claude_text \<noteq> Some [])
            \<and> claude_cli_command cfg' \<noteq> [] \<and> strip (claude_cli_command cfg') \<noteq> []
            \<and> shlex_split e' (strip (claude_cli_command cfg')) = Some r"
  have r: "r \<noteq> [] \<and> \<not> (lower (path_name (hd r)) = ''claude''
                  \<and> ''-p'' \<notin> set (tl r) \<and> ''--print'' \<notin> set (tl r)
                  \<and> (tl r = [] \<or> hd (tl r) \<notin> set claude_subcommands))"
  proof (cases "claude_text = []")
    case True
    with assms(1) a claude_resolve_command_blank [of cfg e] show ?thesis by auto
  next
    case False
    with a obtain command where c: "shlex_split e claude_text = Some command" "command \<noteq> []"
      using assms(1) unfolding claude_resolve_command_def Let_def
      by (auto split: option.splits if_splits)
    from claude_resolve_command_tokens [OF assms(1) [symmetric] False c] a
    show ?thesis using c(2) by (auto split: if_splits)
  qed
  have "strip (if claude_cli_command cfg' = [] then ''claude'' else claude_cli_command cfg')
      = strip (claude_cli_command cfg')"
    using a by simp
  from claude_resolve_command_tokens [OF this, of e' r] a r
  show "claude_resolve_command e' cfg' = Some r" by auto
next
  fix r and e' :: env and cfg' :: settings
  assume a: "codex_resolve_command e cfg = Some r
            \<and> (codex_text = [] \<or> shlex_split e codex_text \<noteq> Some [])
            \<and> codex_cli_command cfg' \<noteq> [] \<and> strip (codex_cli_command cfg') \<noteq> []
            \<and> shlex_split e' (strip (codex_cli_command cfg')) = Some r"
  have r: "r \<noteq> [] \<and> \<not> (lower (path_name (hd r)) = ''codex''
                  \<and> (tl r = [] \<or> hd (tl r) \<notin> set codex_subcommands))"
  proof (cases "codex_text = []")
    case True
    with assms(2) a codex_resolve_command_blank [of cfg e] show ?thesis
      by (auto simp: codex_subcommands_def)
  next
    case False
    with a obtain command where c: "shlex_split e codex_text = Some command" "command \<noteq> []"
      using assms(2) unfolding codex_resolve_command_def Let_def
      by (auto split: option.splits if_splits)
    from codex_resolve_command_tokens [OF assms(2) [symmetric] False c] a
    show ?thesis using c(2) by (auto split: if_splits simp: codex_subcommands_def)
  qed
  have "strip (if codex_cli_command cfg' = [] then ''codex'' else codex_cli_command cfg')
      = strip (codex_cli_command cfg')"
    using a by simp
  from codex_resolve_command_tokens [OF this, of e' r] a r
  show "codex_resolve_command e' cfg' = Some r" by auto
qed


theorem resolve_command_inserts_default_witness:
  "claude_resolve_command env_hi cfg_paths
     = Some [''/usr/local/bin/Claude'', ''-p'', ''--verbose'']
   \<and> codex_resolve_command env_hi cfg_paths = Some [''codex'', ''exec'', ''--json'']
   \<and> claude_resolve_command env_hi cfg_paths_resolved
     = Some [''/usr/local/bin/Claude'', ''-p'', ''--verbose'']
   \<and> codex_resolve_command env_hi cfg_paths_resolved = Some [''codex'', ''exec'', ''--json'']"
proof -
  let ?ct = "''/usr/local/bin/Claude --verbose''" and ?xt = "''codex --json''"
  let ?c = "[''/usr/local/bin/Claude'', ''--verbose'']" and ?x = "[''codex'', ''--json'']"
  let ?cr = "[''/usr/local/bin/Claude'', ''-p'', ''--verbose'']"
  let ?xr = "[''codex'', ''exec'', ''--json'']"
  have 1: "?ct = strip (if claude_cli_command cfg_paths = [] then ''claude''
                        else claude_cli_command cfg_paths)"
    by code_simp
  have 2: "?xt = strip (if codex_cli_command cfg_paths = [] then ''codex''
                        else codex_cli_command cfg_paths)"
    by code_simp
  note T = resolve_command_inserts_default [OF 1 2, of env_hi]
  have ca: "?ct \<noteq> [] \<and> shlex_split env_hi ?ct = Some ?c \<and> ?c \<noteq> []"
    by code_simp
  have cb: "(if lower (path_name (hd ?c)) = ''claude''
                  \<and> ''-p'' \<notin> set (tl ?c) \<and> ''--print'' \<notin> set (tl ?c)
                  \<and> (tl ?c = [] \<or> hd (tl ?c) \<notin> set claude_subcommands)
               then Some (hd ?c # ''-p'' # tl ?c) else Some ?c) = Some ?cr"
    by code_simp
  have c1: "claude_resolve_command env_hi cfg_paths = Some ?cr"
    using T [THEN conjunct1, rule_format, OF ca] cb by simp
  have xa: "?xt \<noteq> [] \<and> shlex_split env_hi ?xt = Some ?x \<and> ?x \<noteq> []"
    by code_simp
  have xb: "(if lower (path_name (hd ?x)) = ''codex''
                  \<and> (tl ?x = [] \<or> hd (tl ?x) \<notin> set codex_subcommands)
               then Some (hd ?x # ''exec'' # tl ?x) else Some ?x) = Some ?xr"
    by code_simp
  have x1: "codex_resolve_command env_hi cfg_paths = Some ?xr"
    using T [THEN conjunct2, THEN conjunct1, rule_format, OF xa] xb by simp
  have cc: "(?ct = [] \<or> shlex_split env_hi ?ct \<noteq> Some [])
            \<and> claude_cli_command cfg_paths_resolved \<noteq> []
            \<and> strip (claude_cli_command cfg_paths_resolved) \<noteq> []
            \<and> shlex_split env_hi (strip (claude_cli_command cfg_paths_resolved)) = Some ?cr"
    by code_simp
  have c2: "claude_resolve_command env_hi cfg_paths_resolved = Some ?cr"
    using T [THEN conjunct2, THEN conjunct2, THEN conjunct1, rule_format,
        where r = ?cr and e' = env_hi and cfg' = cfg_paths_resolved] c1 cc
    by blast
  have xc: "(?xt = [] \<or> shlex_split env_hi ?xt \<noteq> Some [])
            \<and> codex_cli_command cfg_paths_resolved \<noteq> []
            \<and> strip (codex_cli_command cfg_paths_resolved) \<noteq> []
            \<and> shlex_split env_hi (strip (codex_cli_command cfg_paths_resolved)) = Some ?xr"
    by code_simp
  have x2: "codex_resolve_command env_hi cfg_paths_resolved = Some ?xr"
    using T [THEN conjunct2, THEN conjunct2, THEN conjunct2, rule_format,
        where r = ?xr and e' = env_hi and cfg' = cfg_paths_resolved] x1 xc
    by blast
  from c1 x1 c2 x2 show ?thesis by blast
qed

section \<open>The next issue number\<close>











section \<open>The stability wait\<close>

lemma settle_loop_runs_out:
  assumes "\<forall>j < i + k. stat j \<noteq> None"
    and "\<forall>j. j + 3 < i + k \<longrightarrow>
           \<not> (stat (j + 1) = stat j \<and> stat (j + 2) = stat j \<and> stat (j + 3) = stat j)"
    and "c < 3"
    and "(i = 0 \<and> last_size = - 1 \<and> c = 0)
         \<or> (c < i \<and> stat (i - 1) = Some sz \<and> last_size = int sz
             \<and> (\<forall>j. i - 1 - c \<le> j \<and> j < i \<longrightarrow> stat j = Some sz))"
  shows "settle_loop stat k i last_size c = None"
  using assms
proof (induction k arbitrary: i last_size c sz)
  case 0
  then show ?case by simp
next
  case (Suc k)
  from Suc.prems(1) obtain cur where cur: "stat i = Some cur"
    by (metis less_add_Suc2 not_None_eq add.commute less_add_same_cancel1 zero_less_Suc)
  have p1: "\<forall>j < Suc i + k. stat j \<noteq> None" using Suc.prems(1) by simp
  have p2: "\<forall>j. j + 3 < Suc i + k \<longrightarrow>
           \<not> (stat (j + 1) = stat j \<and> stat (j + 2) = stat j \<and> stat (j + 3) = stat j)"
    using Suc.prems(2) by simp
  show ?case
  proof (cases "int cur = last_size")
    case False
    have "settle_loop stat k (Suc i) (int cur) 0 = None"
      by (rule Suc.IH [OF p1 p2, where sz = cur]) (use cur in \<open>auto simp: less_Suc_eq_le\<close>)
    with cur False show ?thesis by simp
  next
    case True
    with Suc.prems(4) have pos: "c < i" and prev: "stat (i - 1) = Some sz" and sz: "cur = sz"
      and run: "\<forall>j. i - 1 - c \<le> j \<and> j < i \<longrightarrow> stat j = Some sz"
      by auto
    have c2: "c + 1 < 3"
    proof (rule ccontr)
      assume "\<not> c + 1 < 3"
      with Suc.prems(3) have c: "c = 2" by simp
      with pos have i3: "3 \<le> i" by simp
      let ?j = "i - 3"
      have r: "stat j = Some sz" if "i - 3 \<le> j" "j < i" for j
      proof -
        from that c have "i - 1 - c \<le> j \<and> j < i" by simp
        with run show ?thesis by blast
      qed
      have "stat ?j = Some sz" "stat (?j + 1) = Some sz" "stat (?j + 2) = Some sz"
        using i3 by (auto intro!: r)
      moreover from i3 cur sz have "stat (?j + 3) = Some sz" by simp
      moreover from i3 have "?j + 3 < i + Suc k" by simp
      ultimately show False using Suc.prems(2) by metis
    qed
    have run': "\<forall>j. Suc i - 1 - (c + 1) \<le> j \<and> j < Suc i \<longrightarrow> stat j = Some sz"
    proof (intro allI impI)
      fix j assume j: "Suc i - 1 - (c + 1) \<le> j \<and> j < Suc i"
      show "stat j = Some sz"
      proof (cases "j = i")
        case True
        with cur sz show ?thesis by simp
      next
        case False
        with j pos have "i - 1 - c \<le> j \<and> j < i" by auto
        with run show ?thesis by blast
      qed
    qed
    have "settle_loop stat k (Suc i) last_size (c + 1) = None"
      by (rule Suc.IH [OF p1 p2 c2, where sz = sz]) (use cur sz True pos run' in auto)
    with cur True c2 show ?thesis
      by (simp add: AUTO_WATCH_SETTLE_ATTEMPTS_def)
  qed
qed


lemma list_all_window4:
  "list_all P [j ..< j + 4] \<longleftrightarrow> P j \<and> P (j + 1) \<and> P (j + 2) \<and> P (j + 3)"
proof -
  have "[j ..< j + 4] = [j, j + 1, j + 2, j + 3]"
    by (simp add: upt_rec [of j] upt_rec [of "Suc j"] upt_rec [of "Suc (Suc j)"]
        upt_rec [of "Suc (Suc (Suc j))"])
  then show ?thesis by simp
qed

lemma never_settles_code_need:
  assumes "never_settles stat (AUTO_WATCH_SETTLE_ATTEMPTS + 1)"
  shows "\<forall>j < 0 + 9. stat j \<noteq> None"
    and "\<forall>j. j + 3 < 0 + 9 \<longrightarrow>
           \<not> (stat (j + 1) = stat j \<and> stat (j + 2) = stat j \<and> stat (j + 3) = stat j)"
proof -
  from assms have a: "\<forall>j \<in> set [0 ..< 9]. stat j \<noteq> None"
    and b: "\<forall>j \<in> set [0 ..< 6]. \<not> identical_run stat 4 j"
    by (simp_all add: never_settles_def AUTO_WATCH_SETTLE_ATTEMPTS_def Let_def list_all_iff)
  from a show "\<forall>j < 0 + 9. stat j \<noteq> None" by simp
  show "\<forall>j. j + 3 < 0 + 9 \<longrightarrow>
           \<not> (stat (j + 1) = stat j \<and> stat (j + 2) = stat j \<and> stat (j + 3) = stat j)"
  proof (intro allI impI)
    fix j :: nat assume "j + 3 < 0 + 9"
    then have "j \<in> set [0 ..< 6]" by simp
    with b have "\<not> identical_run stat 4 j" by blast
    then show "\<not> (stat (j + 1) = stat j \<and> stat (j + 2) = stat j \<and> stat (j + 3) = stat j)"
      by (simp add: identical_run_def list_all_window4)
  qed
qed

lemma wait_falls_back_on_exists:
  assumes "never_settles (stat_size obs) (AUTO_WATCH_SETTLE_ATTEMPTS + 1)"
  shows "wait_for_stable_file obs = exists_after obs"
proof -
  have "settle_loop (stat_size obs) 9 0 (- 1) 0 = None"
    by (rule settle_loop_runs_out [OF never_settles_code_need [OF assms], where sz = 0]) simp_all
  then show ?thesis
    by (simp add: wait_for_stable_file_def AUTO_WATCH_SETTLE_ATTEMPTS_def)
qed

text \<open>
  C5, as amended. Take a candidate inside the vault that is a regular file, all of whose
  nine samples find it, with no four consecutive samples of the same size (the loop asks
  for three repeats of a size, that is four identical samples). Then the stability wait
  answers whether the file still exists after the last attempt. If it does, the file is
  handed to the summarizer, and when that succeeds the saved path and the count are
  recorded; only if the file is gone does the handler give up silently, leaving the state
  as it was and summarizing nothing.
\<close>

theorem unsettled_file_summarized_if_present:
  assumes "never_settles (stat_size (files te file_path)) (AUTO_WATCH_SETTLE_ATTEMPTS + 1)"
    and "inside_vault (files te file_path)" and "is_file (files te file_path)"
  shows "wait_for_stable_file (files te file_path) = exists_after (files te file_path)
    \<and> fst (snd (handle_auto_watch_file te file_path st))
        = (if exists_after (files te file_path) then [file_path] else [])
    \<and> (if exists_after (files te file_path)
        then (\<forall>sv. summarize (files te file_path) = Inr sv \<longrightarrow>
               last_saved_path (fst (handle_auto_watch_file te file_path st)) = saved_path sv
               \<and> processed_count (fst (handle_auto_watch_file te file_path st))
                   = processed_count st + 1)
        else handle_auto_watch_file te file_path st = (st, [], None))"
  using assms wait_falls_back_on_exists [OF assms(1)]
  by (auto simp: handle_auto_watch_file_def Let_def split: sum.splits)

theorem unsettled_file_summarized_if_present_witness:
  "never_settles (stat_size (files tick_ab ''b.md'')) (AUTO_WATCH_SETTLE_ATTEMPTS + 1)
   \<and> wait_for_stable_file (files tick_ab ''b.md'') = exists_after (files tick_ab ''b.md'')
   \<and> exists_after (files tick_ab ''b.md'')
   \<and> fst (snd (handle_auto_watch_file tick_ab ''b.md'' watch_known_a)) = [''b.md'']"
proof -
  have 1: "never_settles (stat_size (files tick_ab ''b.md'')) (AUTO_WATCH_SETTLE_ATTEMPTS + 1)"
    by code_simp
  have 2: "inside_vault (files tick_ab ''b.md'')" and 3: "is_file (files tick_ab ''b.md'')"
    and 4: "exists_after (files tick_ab ''b.md'')"
    by (simp_all add: tick_ab_def obs_growing_def)
  from unsettled_file_summarized_if_present [OF 1 2 3, of watch_known_a] 1 4
  show ?thesis by simp
qed

text \<open>
  The claim as stated fails: a file whose size differs at every sample, so that not even
  two consecutive samples agree, and which is still there at the end, is summarized and
  its issue recorded.
\<close>

theorem growing_file_is_summarized:
  "never_settles (stat_size obs_growing) AUTO_WATCH_SETTLE_ATTEMPTS
   \<and> never_settles (stat_size obs_growing) (AUTO_WATCH_SETTLE_ATTEMPTS + 1)
   \<and> wait_for_stable_file obs_growing
   \<and> handle_auto_watch_file tick_ab ''b.md'' watch_known_a
     = (watch_known_a\<lparr>processed_count := 1, last_processed_file := ''b.md'',
          last_saved_path := ''issue/issue_001_b.md'',
          last_processed_at := ''2026-02-02T10:00:00''\<rparr>, [''b.md''], None)"
  by code_simp

section \<open>The watch tick\<close>






section \<open>The execution lock and the agent's processes\<close>

lemma task_effects_Cons:
  "task_effects t ((u, ev) # trace) = (if u = t then ev # task_effects t trace else task_effects t trace)"
  by (simp add: task_effects_def)

lemma mutual_exclusion_general:
  "lock_semantics holder trace \<Longrightarrow> running = None \<or> running = holder \<Longrightarrow>
   (\<And>t. lock_discipline (holder = Some t) (running = Some t) (task_effects t trace)) \<Longrightarrow>
   exclusive running trace"
proof (induction trace arbitrary: holder running)
  case Nil
  then show ?case by simp
next
  case (Cons a trace)
  obtain u ev where a: "a = (u, ev)" by (cases a)
  from Cons.prems(3) [of u] have d: "lock_discipline (holder = Some u) (running = Some u)
      (ev # task_effects u trace)"
    by (simp add: a task_effects_Cons)
  have rest: "lock_discipline (holder = Some t) (running = Some t) (task_effects t trace)"
    if "t \<noteq> u" for t
    using Cons.prems(3) [of t] that by (simp add: a task_effects_Cons)
  show ?case
  proof (cases ev)
    case (Spawn command input)
    with d have h: "holder = Some u" "running \<noteq> Some u"
      and d': "lock_discipline True True (task_effects u trace)" by auto
    with Cons.prems(2) have r: "running = None" by auto
    have "exclusive (Some u) trace"
    proof (rule Cons.IH)
      show "lock_semantics holder trace" using Cons.prems(1) a Spawn by simp
      show "Some u = None \<or> Some u = holder" using h by simp
      show "lock_discipline (holder = Some t) (Some u = Some t) (task_effects t trace)" for t
        using d' h rest [of t] r by (cases "t = u") auto
    qed
    with r a Spawn show ?thesis by simp
  next
    case (SpawnFailed command input)
    with d have d': "lock_discipline (holder = Some u) (running = Some u) (task_effects u trace)"
      by auto
    have "exclusive running trace"
    proof (rule Cons.IH)
      show "lock_semantics holder trace" using Cons.prems(1) a SpawnFailed by simp
      show "running = None \<or> running = holder" by (rule Cons.prems(2))
      show "lock_discipline (holder = Some t) (running = Some t) (task_effects t trace)" for t
        using d' rest [of t] by (cases "t = u") auto
    qed
    with a SpawnFailed show ?thesis by simp
  next
    case Reaped
    with d have r: "running = Some u"
      and d': "lock_discipline (holder = Some u) False (task_effects u trace)" by auto
    have "exclusive None trace"
    proof (rule Cons.IH)
      show "lock_semantics holder trace" using Cons.prems(1) a Reaped by simp
      show "None = None \<or> None = holder" by simp
      show "lock_discipline (holder = Some t) (None = Some t) (task_effects t trace)" for t
        using d' rest [of t] r by (cases "t = u") auto
    qed
    with a Reaped show ?thesis by simp
  next
    case LockAcquire
    from Cons.prems(1) a LockAcquire have h: "holder = None"
      and l: "lock_semantics (Some u) trace" by auto
    with Cons.prems(2) have r: "running = None" by auto
    from d LockAcquire h r have d': "lock_discipline True False (task_effects u trace)"
      by auto
    have "exclusive running trace"
    proof (rule Cons.IH)
      show "lock_semantics (Some u) trace" by (rule l)
      show "running = None \<or> running = Some u" using r by simp
      show "lock_discipline (Some u = Some t) (running = Some t) (task_effects t trace)" for t
        using d' rest [of t] r h by (cases "t = u") auto
    qed
    with a LockAcquire show ?thesis by simp
  next
    case LockRelease
    from Cons.prems(1) a LockRelease have h: "holder = Some u"
      and l: "lock_semantics None trace" by auto
    from d LockRelease have nr: "running \<noteq> Some u"
      and d': "lock_discipline False (running = Some u) (task_effects u trace)" by auto
    with Cons.prems(2) h have r: "running = None" by auto
    have "exclusive running trace"
    proof (rule Cons.IH)
      show "lock_semantics None trace" by (rule l)
      show "running = None \<or> running = None" using r by simp
      show "lock_discipline (None = Some t) (running = Some t) (task_effects t trace)" for t
        using d' rest [of t] r h by (cases "t = u") auto
    qed
    with a LockRelease show ?thesis by simp
  qed
qed


lemma run_claude_effects:
  "snd (snd (run_claude e cfg tr pr t st)) = []
   \<or> (\<exists>c i. snd (snd (run_claude e cfg tr pr t st)) = [SpawnFailed c i])
   \<or> (\<exists>c i. snd (snd (run_claude e cfg tr pr t st)) = [Spawn c i, Reaped])"
  unfolding run_claude_def Let_def subprocess_run_def
  by (auto split: option.splits prod.splits proc_behaviour.splits)

lemma stream_claude_cli_locked_effects:
  "snd (snd (stream_claude_cli_locked e cfg tr pr topt st)) = []
   \<or> (\<exists>c i. snd (snd (stream_claude_cli_locked e cfg tr pr topt st)) = [SpawnFailed c i])
   \<or> (\<exists>c i. snd (snd (stream_claude_cli_locked e cfg tr pr topt st)) = [Spawn c i, Reaped])"
  unfolding stream_claude_cli_locked_def Let_def
  by (auto split: option.splits prod.splits)

lemma bracketed_discipline:
  "fx = [] \<or> (\<exists>c i. fx = [SpawnFailed c i]) \<or> (\<exists>c i. fx = [Spawn c i, Reaped]) \<Longrightarrow>
   lock_discipline False False (LockAcquire # fx @ [LockRelease])"
  by auto

lemma task_effects_two_tasks:
  "task_effects t (map (Pair 1) a @ map (Pair 2) b)
     = (if t = 1 then a else if t = 2 then b else [])"
  by (auto simp: task_effects_def filter_map comp_def)

text \<open>
  C9, as amended. Every invocation through the asynchronous entry points of the session
  service, \<open>generate_with_claude_cli\<close> and \<open>stream_claude_cli\<close>, that runs to its end
  takes the global execution lock first, starts its process only while holding it, and
  releases it only after that process has ended. So among tasks that all keep this
  discipline, under the lock's guarantee that one task holds it at a time, no process is
  started while another is still running: their processes are totally ordered. The
  router's own runners are not among them. A call that is cancelled or abandoned before
  its end is outside the model.
\<close>

theorem service_invocations_hold_lock:
  "lock_discipline False False (snd (snd (generate_with_claude_cli e cfg tr pr topt st)))
   \<and> lock_discipline False False (snd (snd (stream_claude_cli e cfg tr pr topt st)))
   \<and> (\<forall>trace. lock_semantics None trace
          \<and> (\<forall>t. lock_discipline False False (task_effects t trace))
        \<longrightarrow> exclusive None trace)"
proof (intro conjI allI impI)
  let ?t = "case topt of None \<Rightarrow> claude_cli_timeout_sec cfg | Some t \<Rightarrow> t"
  have "snd (snd (generate_with_claude_cli e cfg tr pr topt st))
      = LockAcquire # snd (snd (run_claude e cfg tr pr ?t st)) @ [LockRelease]"
    by (simp add: generate_with_claude_cli_def Let_def split: prod.splits)
  then show "lock_discipline False False
      (snd (snd (generate_with_claude_cli e cfg tr pr topt st)))"
    using bracketed_discipline [OF run_claude_effects [of e cfg tr pr ?t st]] by simp
  have "snd (snd (stream_claude_cli e cfg tr pr topt st))
      = LockAcquire # snd (snd (stream_claude_cli_locked e cfg tr pr topt st)) @ [LockRelease]"
    by (simp add: stream_claude_cli_def split: prod.splits)
  then show "lock_discipline False False (snd (snd (stream_claude_cli e cfg tr pr topt st)))"
    using bracketed_discipline [OF stream_claude_cli_locked_effects [of e cfg tr pr topt st]]
    by simp
next
  fix trace
  assume a: "lock_semantics None trace
          \<and> (\<forall>t. lock_discipline False False (task_effects t trace))"
  show "exclusive None trace"
    by (rule mutual_exclusion_general [where holder = None]) (use a in auto)
qed

theorem service_invocations_hold_lock_witness:
  "lock_semantics None trace_service
   \<and> (\<forall>t. lock_discipline False False (task_effects t trace_service))
   \<and> exclusive None trace_service"
proof -
  have l: "lock_semantics None trace_service"
    by code_simp
  have d: "lock_discipline False False (task_effects t trace_service)" for t
    unfolding trace_service_def task_effects_two_tasks
    using service_invocations_hold_lock [THEN conjunct1] by simp
  from service_invocations_hold_lock [THEN conjunct2, THEN conjunct2, rule_format,
      of trace_service] l d
  show ?thesis by blast
qed

text \<open>
  The claim as stated fails: \<open>_run_subprocess_once\<close> with the router's command for the
  engine \<open>claude\<close> starts the agent without taking the lock, and two such calls can have
  their processes running at the same time without the lock forbidding it.
\<close>

theorem router_runs_agent_without_lock:
  "is_agent_command (ai_resolve_command ''claude'')
   \<and> snd (run_subprocess_once env_hi (ai_resolve_command ''claude'') ''one'' 600)
       = [Spawn [''claude'', ''-p''] ''one'', Reaped]
   \<and> \<not> lock_discipline False False
         (snd (run_subprocess_once env_hi (ai_resolve_command ''claude'') ''one'' 600))
   \<and> task_effects 1 trace_router
       = snd (run_subprocess_once env_hi (ai_resolve_command ''claude'') ''one'' 600)
   \<and> task_effects 2 trace_router
       = snd (run_subprocess_once env_hi (ai_resolve_command ''claude'') ''two'' 600)
   \<and> lock_semantics None trace_router
   \<and> \<not> exclusive None trace_router"
  by code_simp

end
